theory Spec2Isabelle
  imports Main "HOL-Library.AList"
begin

section \<open>Terms: the classes of types.ts\<close>

text \<open>
  A Mal term is an object of a subclass of \<open>MalType\<close>. The evaluator only reads terms, so a
  term is modelled by its class and its contents. The classes are those of
  \<^verbatim>\<open>src/yamajik/types.ts\<close>, and three more that the evaluator and the checker import
  from the same module.

  \<^item> A \<open>MalFunction\<close> is an object with a mutable field (\<open>isMacro\<close>, set by \<open>DEFMACRO\<close>),
    shared by every binding that holds it: the term is a reference into the table of
    function objects of the interpreter state.
  \<^item> JavaScript throws any value, and \<open>TRY\<close> binds whatever it catches. Two thrown
    values of the sources are not \<open>MalType\<close> objects: the boolean \<open>false\<close> of
    \<open>checkCatchAst\<close> (\<open>JsFalse\<close>) and the string of \<open>MalType.call\<close>,
    \<^verbatim>\<open>`${this} is not callable`\<close> (\<open>JsNotCallable\<close>, which keeps the object instead of
    its text).
\<close>

text \<open>
  Modelled from the spec: the classes \<open>MalNativeFunction\<close>, \<open>MalAtom\<close> and \<open>MalError\<close>
  are declared in a later revision of types.ts that is not among the sources.
  A NativeFunction is a host callable from a list of terms to a term: the term is its
  name, and what the names compute is a parameter of the evaluator. An Atom is a mutable
  cell: the term is a reference to it (no source under src reads or writes one). An Error
  is a wrapped Term carrying a trace: the \<open>value\<close> that every \<open>MalType\<close> has, and the
  sequence of asts pushed on it while it unwinds. An error is a value here: a push makes
  the error that is thrown on, and a binding that holds the error keeps the trace it had
  when it was bound.
\<close>

datatype mal =
    MalNil
  | MalBoolean bool
  | MalNumber int
  | MalString string
  | MalKeyword string
  | MalSymbol string
  | MalList "mal list"
  | MalVector "mal list"
  | MalHashMap "(mal \<times> mal) list"
  | MalFunction nat
  | MalNativeFunction string
  | MalAtom nat
  | MalError mal "mal list"
  | MalUndefined
  | JsFalse
  | JsNotCallable mal

subsection \<open>MalList.get and MalList.first\<close>

text \<open>
  \<^verbatim>\<open>get(index: number): MalType { return this.value[index] || new MalUndefined(); }\<close>
  \<^verbatim>\<open>first(): MalType { return this.get(0); }\<close>

  \<open>this.value\<close> is an \<open>Array<MalType>\<close>. A JavaScript number is an array index when it
  is an integer from 0 below the length; reading an array at any other number (negative,
  too large, fractional, \<open>NaN\<close>, infinite) yields \<open>undefined\<close> and does not throw.
  \<open>js_index\<close> is that read, \<open>None\<close> being \<open>undefined\<close>. Every object is truthy and
  \<open>undefined\<close> is falsy, which decides the \<open>||\<close>.
\<close>

datatype jsnumber = JsInteger int | JsNonInteger

definition js_index :: "'a list \<Rightarrow> jsnumber \<Rightarrow> 'a option" where
  "js_index a index =
     (case index of
        JsInteger i \<Rightarrow> (if 0 \<le> i \<and> i < int (length a) then Some (a ! nat i) else None)
      | JsNonInteger \<Rightarrow> None)"

definition get :: "mal list \<Rightarrow> jsnumber \<Rightarrow> mal" where
  "get this_value index =
     (case js_index this_value index of Some item \<Rightarrow> item | None \<Rightarrow> MalUndefined)"

definition first :: "mal list \<Rightarrow> mal" where
  "first this_value = get this_value (JsInteger 0)"

subsection \<open>MalType.equal and MalType.valueEqual\<close>

text \<open>
  \<^verbatim>\<open>equal(another) { return this === another || this.valueEqual(another); }\<close>
  \<^verbatim>\<open>valueEqual(another) { return this.type === another.type && this.value === another.value; }\<close>

  Both compare with \<open>===\<close>, which on objects (an array among them) is identity. Identity
  is not a property of a tree of values, so for these two methods objects are modelled
  with their references: a heap gives each object reference its class name
  (\<open>this.type\<close>, that is \<open>this.constructor.name\<close>) and its \<open>value\<close>, and each array
  reference its elements. A \<open>value\<close> is a JavaScript primitive or a reference.
\<close>

datatype class_name =
    Name_MalType | Name_MalList | Name_MalNumber | Name_MalString | Name_MalBoolean
  | Name_MalNil | Name_MalUndefined | Name_MalKeyword | Name_MalVector | Name_MalHashMap
  | Name_MalSymbol | Name_MalFunction | Name_MalNativeFunction | Name_MalAtom | Name_MalError

datatype jsvalue =
    JsUndefined | JsNull | JsBoolean bool | JsNumber int | JsNaN | JsText string
  | JsReference nat

record heap =
  type_of :: "nat \<Rightarrow> class_name"
  value_of :: "nat \<Rightarrow> jsvalue"
  array_of :: "nat \<Rightarrow> nat list"

text \<open>\<open>a === b\<close>: equal primitives, or the same reference; \<open>NaN\<close> equals nothing.\<close>

fun strict_equals :: "jsvalue \<Rightarrow> jsvalue \<Rightarrow> bool" where
  "strict_equals JsNaN b = False"
| "strict_equals a JsNaN = False"
| "strict_equals a b = (a = b)"

definition valueEqual :: "heap \<Rightarrow> nat \<Rightarrow> nat \<Rightarrow> bool" where
  "valueEqual h this another =
     (type_of h this = type_of h another \<and> strict_equals (value_of h this) (value_of h another))"

definition equal_MalType :: "heap \<Rightarrow> nat \<Rightarrow> nat \<Rightarrow> bool" where
  "equal_MalType h this another = (this = another \<or> valueEqual h this another)"

text \<open>
  The elements of a sequence object: the array its \<open>value\<close> refers to.
\<close>

definition elements :: "heap \<Rightarrow> nat \<Rightarrow> nat list" where
  "elements h s = (case value_of h s of JsReference a \<Rightarrow> array_of h a | _ \<Rightarrow> [])"

text \<open>
  A heap with the list \<open>(1)\<close> (object 0, array 10) and the vector \<open>[1]\<close> (object 1,
  array 11), both holding the number object 2.
\<close>

definition heap_list_vector :: heap where
  "heap_list_vector =
     \<lparr> type_of = (\<lambda>r. if r = 0 then Name_MalList else if r = 1 then Name_MalVector
                         else Name_MalNumber),
       value_of = (\<lambda>r. if r = 0 then JsReference 10 else if r = 1 then JsReference 11
                          else JsNumber 1),
       array_of = (\<lambda>a. if a = 10 \<or> a = 11 then [2] else []) \<rparr>"

subsection \<open>Calling get and first on an object\<close>

text \<open>
  A call \<open>s.get(i)\<close> looks \<open>get\<close> up on the object first. Every class of types.ts
  extends \<open>MalType\<close> directly, so an object has the instance methods that the body of its
  own class declares and those of \<open>MalType\<close>. \<open>own_methods\<close> lists them by class (the
  accessors \<open>type\<close> and \<open>length\<close> and the static \<open>get\<close> of \<open>MalSymbol\<close> are no instance
  methods): \<open>get\<close> and \<open>first\<close> are declared by \<open>MalList\<close> alone, and the body of
  \<open>MalVector\<close> is empty. Calling what is not there throws a \<open>TypeError\<close>
  (\<^verbatim>\<open>s.get is not a function\<close>). The receiver is given by its class name and the array
  it holds.
\<close>

datatype js_exception = TypeError_not_a_function

fun own_methods :: "class_name \<Rightarrow> string list" where
  "own_methods Name_MalType = [''set'', ''toString'', ''call'', ''equal'', ''valueEqual'']"
| "own_methods Name_MalList = [''map'', ''get'', ''first'', ''group'', ''toString'']"
| "own_methods Name_MalNil = [''toString'']"
| "own_methods Name_MalUndefined = [''toString'']"
| "own_methods Name_MalFunction = [''call'']"
| "own_methods other = []"

definition has_method :: "class_name \<Rightarrow> string \<Rightarrow> bool" where
  "has_method c name =
     (name \<in> set (own_methods c) \<or> name \<in> set (own_methods Name_MalType))"

definition call_get :: "class_name \<Rightarrow> mal list \<Rightarrow> jsnumber \<Rightarrow> js_exception + mal" where
  "call_get c this_value index =
     (if has_method c ''get'' then Inr (get this_value index)
      else Inl TypeError_not_a_function)"

definition call_first :: "class_name \<Rightarrow> mal list \<Rightarrow> js_exception + mal" where
  "call_first c this_value =
     (if has_method c ''first'' then Inr (first this_value)
      else Inl TypeError_not_a_function)"

section \<open>Start-up of the interpreter\<close>

text \<open>
  The module body before the function declarations (lines 49 to 63 of the later step):
  the global environment is created, every entry of \<open>core\<close> is set in it, and four
  source strings go through \<open>rep\<close>, in this order.
\<close>

datatype startup_step = Install_core | Rep string

definition bootstrap :: "string list" where
  \<open>bootstrap =
     [''(def! not (fn* [a] (if a false true)))'',
      ''(def! load-file (fn* (path) (eval (read-str (str "(do " (slurp path) ")")))))'',
      ''(defmacro! cond (fn* (& xs) (if (> (count xs) 0) (list 'if (first xs) (if (> (count xs) 1) (nth xs 1) (throw "odd number of forms to cond")) (cons 'cond (rest (rest xs)))))))'',
      ''(defmacro! or (fn* (& xs) (if (empty? xs) nil (if (= 1 (count xs)) (first xs) `(let* (or_FIXME ~(first xs)) (if or_FIXME or_FIXME (or ~@(rest xs))))))))'']\<close>

definition startup :: "startup_step list" where
  "startup = Install_core # map Rep bootstrap"

text \<open>
  The second source string as the specification gives it: \<open>read-string\<close>, and a
  \<open>do\<close> form closed by a newline escape and \<open>nil\<close>.
\<close>

definition spec_load_file :: string where
  \<open>spec_load_file =
     ''(def! load-file (fn* (path) (eval (read-string (str "(do " (slurp path) "''
     @ [CHR 0x5C] @ ''nnil)")))))''\<close>

section \<open>The interpreter state\<close>

text \<open>
  Environments and function objects are mutable and shared: a closure holds its
  environment, \<open>def!\<close> writes into a frame that other closures see, and \<open>DEFMACRO\<close> sets
  \<open>isMacro\<close> on the function object itself. The state is therefore a store: a table of
  frames and a table of function objects, both indexed by the order of allocation; an
  environment is the index of its frame, and \<open>MalFunction f\<close> the index of its object.
  Every index that the evaluator follows was handed out by an allocation before.
\<close>

text \<open>
  Modelled from the spec: the class \<open>MalFunction\<close> of the later revision of types.ts
  (constructed as \<open>new MalFunction(ast, bindings, env, fn)\<close>) is not among the sources. A
  function carries the unevaluated body, the parameter-binding term, the captured
  environment and the flag \<open>is_macro\<close>; the closure \<open>fn\<close> is \<open>MalFunction_call\<close> below.
\<close>

record func =
  func_ast :: mal
  func_params :: mal
  func_env :: nat
  isMacro :: bool

record frame =
  outer :: "nat option"
  data :: "(string \<times> mal) list"

record state =
  frames :: "frame list"
  funcs :: "func list"

text \<open>
  A call returns a value, throws a value, or is cut off when the bound on the number of
  loop iterations is used up (\<open>OutOfFuel\<close>: the model's reading of a
  computation that has not ended yet). Mutations made before a throw stay.
\<close>

datatype 'a outcome = Return 'a state | Throw mal state | OutOfFuel

definition and_then :: "'a outcome \<Rightarrow> ('a \<Rightarrow> state \<Rightarrow> 'b outcome) \<Rightarrow> 'b outcome" where
  "and_then m k =
     (case m of
        Return x st \<Rightarrow> k x st
      | Throw error st \<Rightarrow> Throw error st
      | OutOfFuel \<Rightarrow> OutOfFuel)"

text \<open>
  The helpers of the evaluator call \<open>EVAL\<close>, which calls them back. Each helper takes the
  evaluator it calls as its first argument; \<open>EVAL\<close> itself is defined last, by recursion on
  the bound. A native function is a name; \<open>host\<close> is what the names compute, and may call
  the evaluator back (as \<open>apply\<close>, \<open>map\<close> or \<open>swap!\<close> do) and change the state.
\<close>

type_synonym evaluator = "mal \<Rightarrow> nat \<Rightarrow> state \<Rightarrow> mal outcome"

type_synonym host = "evaluator \<Rightarrow> string \<Rightarrow> mal list \<Rightarrow> state \<Rightarrow> mal outcome"

subsection \<open>The enumeration Symbols\<close>

text \<open>
  Modelled from the spec: the members of the enumeration \<open>Symbols\<close> are not among the
  sources (\<open>Symbols\<close> is empty in the revision of types.ts under src). The names are
  those of the special forms of the specification.
\<close>

abbreviation "Symbols_Def \<equiv> ''def!''"
abbreviation "Symbols_Let \<equiv> ''let*''"
abbreviation "Symbols_Do \<equiv> ''do''"
abbreviation "Symbols_If \<equiv> ''if''"
abbreviation "Symbols_Fn \<equiv> ''fn*''"
abbreviation "Symbols_Eval \<equiv> ''eval''"
abbreviation "Symbols_Quote \<equiv> ''quote''"
abbreviation "Symbols_Quasiquote \<equiv> ''quasiquote''"
abbreviation "Symbols_Unquote \<equiv> ''unquote''"
abbreviation "Symbols_SpliceUnquote \<equiv> ''splice-unquote''"
abbreviation "Symbols_Defmacro \<equiv> ''defmacro!''"
abbreviation "Symbols_Macroexpand \<equiv> ''macroexpand''"
abbreviation "Symbols_Try \<equiv> ''try*''"
abbreviation "Symbols_Catch \<equiv> ''catch*''"
abbreviation "Symbols_Concat \<equiv> ''concat''"
abbreviation "Symbols_Cons \<equiv> ''cons''"

subsection \<open>Errors\<close>

text \<open>
  Modelled from the spec: errors.ts and the class \<open>MalError\<close> are not among the sources.
  An Error is a wrapped Term carrying a trace, and every error of the taxonomy unwinds
  through \<open>eval\<close> with the asts appended to its trace: each error class is a \<open>MalError\<close>.
  The term an error of the host wraps records the class and the arguments of the \<open>new\<close>
  expression that made it; a new error has the empty trace. \<open>pushAst\<close> appends.
  \<open>UnboundSymbol\<close> and \<open>ArityError\<close> are the specification's names for the failures of
  the environment, whose classes no source names.
\<close>

fun class_text :: "class_name \<Rightarrow> string" where
  "class_text Name_MalType = ''MalType''"
| "class_text Name_MalList = ''MalList''"
| "class_text Name_MalNumber = ''MalNumber''"
| "class_text Name_MalString = ''MalString''"
| "class_text Name_MalBoolean = ''MalBoolean''"
| "class_text Name_MalNil = ''MalNil''"
| "class_text Name_MalUndefined = ''MalUndefined''"
| "class_text Name_MalKeyword = ''MalKeyword''"
| "class_text Name_MalVector = ''MalVector''"
| "class_text Name_MalHashMap = ''MalHashMap''"
| "class_text Name_MalSymbol = ''MalSymbol''"
| "class_text Name_MalFunction = ''MalFunction''"
| "class_text Name_MalNativeFunction = ''MalNativeFunction''"
| "class_text Name_MalAtom = ''MalAtom''"
| "class_text Name_MalError = ''MalError''"

definition host_error :: "string \<Rightarrow> mal list \<Rightarrow> mal" where
  "host_error name arguments = MalError (MalList (MalString name # arguments)) []"

definition MalParametersError :: "mal \<Rightarrow> nat \<Rightarrow> nat \<Rightarrow> mal" where
  "MalParametersError symbol calledNum excepted =
     host_error ''MalParametersError''
       [symbol, MalNumber (int calledNum), MalNumber (int excepted)]"

definition MalMultipleParametersError :: "mal \<Rightarrow> nat \<Rightarrow> nat \<Rightarrow> mal" where
  "MalMultipleParametersError symbol calledNum atLeastExcepted =
     host_error ''MalMultipleParametersError''
       [symbol, MalNumber (int calledNum), MalNumber (int atLeastExcepted)]"

definition MalUnexpectedLength :: "mal \<Rightarrow> nat \<Rightarrow> mal" where
  "MalUnexpectedLength instance base =
     host_error ''MalUnexpectedLength'' [instance, MalNumber (int base)]"

definition MalUnexpectedTokenType :: "mal \<Rightarrow> class_name list \<Rightarrow> mal" where
  "MalUnexpectedTokenType instance excepted =
     host_error ''MalUnexpectedTokenType''
       (instance # map (\<lambda>c. MalString (class_text c)) excepted)"

definition MalInvalidRestParameter :: "mal \<Rightarrow> mal" where
  "MalInvalidRestParameter bindings = host_error ''MalInvalidRestParameter'' [bindings]"

definition UnboundSymbol :: "string \<Rightarrow> mal" where
  "UnboundSymbol key = host_error ''UnboundSymbol'' [MalSymbol key]"

definition ArityError :: "mal \<Rightarrow> mal list \<Rightarrow> mal" where
  "ArityError binds exprs = host_error ''ArityError'' [binds, MalList exprs]"

definition pushAst :: "mal \<Rightarrow> mal \<Rightarrow> mal" where
  "pushAst error ast =
     (case error of MalError v trace \<Rightarrow> MalError v (trace @ [ast]) | _ \<Rightarrow> error)"

subsection \<open>checker.ts\<close>

text \<open>
  Modelled from the spec: \<open>isInstance\<close> of utils.ts is not among the sources; it is
  JavaScript's \<open>instanceof\<close>. Every term is a \<open>MalType\<close>. The checker tells the class
  hierarchy of the later revision of types.ts: \<open>isMalSequential\<close> is "an instance of
  \<open>MalVector\<close>", and \<open>isMalVector\<close> has to exclude the instances of \<open>MalList\<close>, so
  \<open>MalList\<close> extends \<open>MalVector\<close>. The two thrown values that are not objects are
  instances of nothing.
\<close>

fun class_of :: "mal \<Rightarrow> class_name option" where
  "class_of MalNil = Some Name_MalNil"
| "class_of (MalBoolean b) = Some Name_MalBoolean"
| "class_of (MalNumber n) = Some Name_MalNumber"
| "class_of (MalString s) = Some Name_MalString"
| "class_of (MalKeyword s) = Some Name_MalKeyword"
| "class_of (MalSymbol s) = Some Name_MalSymbol"
| "class_of (MalList v) = Some Name_MalList"
| "class_of (MalVector v) = Some Name_MalVector"
| "class_of (MalHashMap m) = Some Name_MalHashMap"
| "class_of (MalFunction f) = Some Name_MalFunction"
| "class_of (MalNativeFunction name) = Some Name_MalNativeFunction"
| "class_of (MalAtom a) = Some Name_MalAtom"
| "class_of (MalError v trace) = Some Name_MalError"
| "class_of MalUndefined = Some Name_MalUndefined"
| "class_of JsFalse = None"
| "class_of (JsNotCallable x) = None"

definition isInstance :: "mal \<Rightarrow> class_name \<Rightarrow> bool" where
  "isInstance instance c =
     (case class_of instance of
        None \<Rightarrow> False
      | Some k \<Rightarrow> c = k \<or> c = Name_MalType \<or> (k = Name_MalList \<and> c = Name_MalVector))"

text \<open>The array of a sequential (what its iterator yields); no other term has one.\<close>

fun items :: "mal \<Rightarrow> mal list" where
  "items (MalList v) = v"
| "items (MalVector v) = v"
| "items other = []"

definition symbol_name :: "mal \<Rightarrow> string" where
  "symbol_name symbol = (case symbol of MalSymbol name \<Rightarrow> name | _ \<Rightarrow> [])"

text \<open>
  A check either throws or returns nothing: \<open>Some error\<close> is the thrown value.
  \<open>checkMalType\<close> throws when the instance is of none of the expected classes, or of one
  of the unexpected ones.
\<close>

definition checkMalType :: "mal \<Rightarrow> class_name list \<Rightarrow> class_name list \<Rightarrow> mal option" where
  "checkMalType instance excepted unexcepted =
     (if list_all (\<lambda>c. \<not> isInstance instance c) excepted
         \<or> list_ex (\<lambda>c. isInstance instance c) unexcepted
      then Some (MalUnexpectedTokenType instance excepted) else None)"

definition checkMalInnerParameters :: "mal \<Rightarrow> mal list \<Rightarrow> nat \<Rightarrow> mal option" where
  "checkMalInnerParameters symbol parameters excepted =
     (let calledNum = length parameters in
      if calledNum \<noteq> excepted then Some (MalParametersError symbol calledNum excepted)
      else None)"

definition checkMalInnerMultipleParameters :: "mal \<Rightarrow> mal list \<Rightarrow> nat \<Rightarrow> mal option" where
  "checkMalInnerMultipleParameters symbol parameters atLeastExcepted =
     (let calledNum = length parameters in
      if calledNum < atLeastExcepted
      then Some (MalMultipleParametersError symbol calledNum atLeastExcepted) else None)"

definition checkMalSequentialBaseLength :: "mal \<Rightarrow> nat \<Rightarrow> mal option" where
  "checkMalSequentialBaseLength instance base =
     (if length (items instance) mod base \<noteq> 0 then Some (MalUnexpectedLength instance base)
      else None)"

definition checkMalTypeIsMalSymbol :: "mal \<Rightarrow> mal option" where
  "checkMalTypeIsMalSymbol instance = checkMalType instance [Name_MalSymbol] []"

definition checkMalTypeIsMalSequential :: "mal \<Rightarrow> mal option" where
  "checkMalTypeIsMalSequential instance = checkMalType instance [Name_MalVector] []"

definition checkMalTypeIsMalVector :: "mal \<Rightarrow> mal option" where
  "checkMalTypeIsMalVector instance = checkMalType instance [Name_MalVector] [Name_MalList]"

definition checkMalTypeIsMalList :: "mal \<Rightarrow> mal option" where
  "checkMalTypeIsMalList instance = checkMalType instance [Name_MalList] []"

definition checkMalTypeIsMalFunction :: "mal \<Rightarrow> mal option" where
  "checkMalTypeIsMalFunction instance = checkMalType instance [Name_MalFunction] []"

definition isMalFalse :: "mal \<Rightarrow> bool" where
  "isMalFalse instance = (isInstance instance Name_MalBoolean \<and> instance = MalBoolean False)"

definition isPositive :: "mal \<Rightarrow> bool" where
  "isPositive instance = (\<not> (isMalFalse instance \<or> isInstance instance Name_MalNil))"

definition isMalList :: "mal \<Rightarrow> bool" where
  "isMalList instance = isInstance instance Name_MalList"

definition isMalVector :: "mal \<Rightarrow> bool" where
  "isMalVector instance =
     (isInstance instance Name_MalVector \<and> \<not> isInstance instance Name_MalList)"

definition isMalSequential :: "mal \<Rightarrow> bool" where
  "isMalSequential instance = isInstance instance Name_MalVector"

definition isMalHashMap :: "mal \<Rightarrow> bool" where
  "isMalHashMap instance = isInstance instance Name_MalHashMap"

definition isMalSymbol :: "mal \<Rightarrow> bool" where
  "isMalSymbol instance = isInstance instance Name_MalSymbol"

definition isMalFunction :: "mal \<Rightarrow> bool" where
  "isMalFunction instance = isInstance instance Name_MalFunction"

definition isMalError :: "mal \<Rightarrow> bool" where
  "isMalError instance = isInstance instance Name_MalError"

definition isRestMalSymbol :: "mal \<Rightarrow> bool" where
  "isRestMalSymbol instance = (isMalSymbol instance \<and> instance = MalSymbol ''&'')"

definition isMalSymbolCatch :: "mal \<Rightarrow> bool" where
  "isMalSymbolCatch instance = (isMalSymbol instance \<and> instance = MalSymbol Symbols_Catch)"

text \<open>
  \<open>checkMalBindings\<close> walks the bindings from the last index down to 0;
  \<open>checkMalBindings_from bindings k\<close> is the loop with \<open>k\<close> indices left, at index \<open>k - 1\<close>.
\<close>

primrec checkMalBindings_from :: "mal \<Rightarrow> nat \<Rightarrow> mal option" where
  "checkMalBindings_from bindings 0 = None"
| "checkMalBindings_from bindings (Suc index) =
     (let binding = get (items bindings) (JsInteger (int index)) in
      case checkMalTypeIsMalSymbol binding of
        Some error \<Rightarrow> Some error
      | None \<Rightarrow>
          if isRestMalSymbol binding \<and> int index \<noteq> int (length (items bindings)) - 2
          then Some (MalInvalidRestParameter bindings)
          else checkMalBindings_from bindings index)"

definition checkMalBindings :: "mal \<Rightarrow> mal \<Rightarrow> mal option" where
  "checkMalBindings symbol bindings =
     (case checkMalTypeIsMalSequential bindings of
        Some error \<Rightarrow> Some error
      | None \<Rightarrow> checkMalBindings_from bindings (length (items bindings)))"

definition checkCatchAst :: "mal \<Rightarrow> mal option" where
  "checkCatchAst instance =
     (if \<not> isMalList instance then Some JsFalse
      else
        let catchSymbol = first (items instance); catchParams = tl (items instance) in
        if \<not> isMalSymbolCatch catchSymbol then Some JsFalse
        else
          case checkMalInnerParameters (MalSymbol Symbols_Catch) catchParams 2 of
            Some error \<Rightarrow> Some error
          | None \<Rightarrow> checkMalTypeIsMalSymbol (catchParams ! 0))"

subsection \<open>Environments\<close>

text \<open>
  Modelled from the spec: env.ts (the class \<open>MalEnv\<close>) is not among the sources. An
  environment holds a parent link (absent at the root) and a mapping from symbols to
  terms. \<open>set\<close> sets in this frame; \<open>find\<close> returns the nearest ancestor frame that
  contains the symbol, or nothing; \<open>get\<close> returns the bound term and fails with
  \<open>UnboundSymbol\<close> if there is none; \<open>has\<close> tells whether \<open>find\<close> finds a frame.
  A parent is allocated before its children, which is what \<open>find\<close> descends on.
\<close>

function MalEnv_find :: "frame list \<Rightarrow> nat \<Rightarrow> string \<Rightarrow> nat option" where
  "MalEnv_find fs env key =
     (if env < length fs then
        (case map_of (data (fs ! env)) key of
           Some v \<Rightarrow> Some env
         | None \<Rightarrow>
             (case outer (fs ! env) of
                None \<Rightarrow> None
              | Some parent \<Rightarrow> if parent < env then MalEnv_find fs parent key else None))
      else None)"
  by pat_completeness auto
termination
  by (relation "measure (\<lambda>(fs, env, key). env)") auto

declare MalEnv_find.simps [simp del]

definition MalEnv_has :: "nat \<Rightarrow> string \<Rightarrow> state \<Rightarrow> bool" where
  "MalEnv_has env key st = (MalEnv_find (frames st) env key \<noteq> None)"

definition MalEnv_get :: "nat \<Rightarrow> string \<Rightarrow> state \<Rightarrow> mal outcome" where
  "MalEnv_get env key st =
     (case MalEnv_find (frames st) env key of
        None \<Rightarrow> Throw (UnboundSymbol key) st
      | Some e \<Rightarrow>
          (case map_of (data (frames st ! e)) key of
             None \<Rightarrow> Throw (UnboundSymbol key) st
           | Some v \<Rightarrow> Return v st))"

definition MalEnv_set :: "nat \<Rightarrow> string \<Rightarrow> mal \<Rightarrow> state \<Rightarrow> state" where
  "MalEnv_set env key v st =
     st\<lparr>frames := (frames st)
          [env := (frames st ! env)\<lparr>data := AList.update key v (data (frames st ! env))\<rparr>]\<rparr>"

text \<open>\<open>new MalEnv(outer)\<close>: a fresh empty frame.\<close>

definition new_MalEnv :: "nat option \<Rightarrow> state \<Rightarrow> nat \<times> state" where
  "new_MalEnv outer_env st =
     (length (frames st), st\<lparr>frames := frames st @ [\<lparr>outer = outer_env, data = []\<rparr>]\<rparr>)"

text \<open>
  Modelled from the spec: \<open>new MalEnv(outer, binds, exprs)\<close>, the parameter binding
  constructor. Each positional parameter is bound to the corresponding argument; at the
  rest marker \<open>&\<close> the symbol that follows is bound to a List of all remaining arguments;
  \<open>&\<close> anywhere but at position \<open>len - 2\<close> is a bind error. Without a rest marker the
  argument count must equal the parameter count; with one it must be at least the number
  of positional parameters.
\<close>

fun bind_params :: "mal \<Rightarrow> mal list \<Rightarrow> mal list \<Rightarrow> mal + (string \<times> mal) list" where
  "bind_params binds [] [] = Inr []"
| "bind_params binds [] (x # xs) = Inl (ArityError binds (x # xs))"
| "bind_params binds (p # ps) exprs =
     (if \<not> isMalSymbol p then Inl (MalUnexpectedTokenType p [Name_MalSymbol])
      else if isRestMalSymbol p then
        (case ps of
           [r] \<Rightarrow>
             if isMalSymbol r \<and> \<not> isRestMalSymbol r then Inr [(symbol_name r, MalList exprs)]
             else Inl (MalInvalidRestParameter binds)
         | _ \<Rightarrow> Inl (MalInvalidRestParameter binds))
      else
        (case exprs of
           [] \<Rightarrow> Inl (ArityError binds exprs)
         | x # xs \<Rightarrow>
             (case bind_params binds ps xs of
                Inl error \<Rightarrow> Inl error
              | Inr bound \<Rightarrow> Inr ((symbol_name p, x) # bound))))"

definition new_MalEnv_binds :: "nat \<Rightarrow> mal \<Rightarrow> mal list \<Rightarrow> state \<Rightarrow> nat outcome" where
  "new_MalEnv_binds outer_env binds exprs st =
     (if \<not> isMalSequential binds then Throw (MalUnexpectedTokenType binds [Name_MalVector]) st
      else
        case bind_params binds (items binds) exprs of
          Inl error \<Rightarrow> Throw error st
        | Inr bound \<Rightarrow>
            Return (length (frames st))
              (st\<lparr>frames := frames st @
                    [\<lparr>outer = Some outer_env,
                      data = foldl (\<lambda>d (key, v). AList.update key v d) [] bound\<rparr>]\<rparr>))"

section \<open>Evaluation: what the two steps share\<close>

text \<open>
  The sources hold two steps of the interpreter: \<^verbatim>\<open>src/unnamed/part_000\<close>, an earlier
  one, and \<^verbatim>\<open>src/unnamed/part_001\<close>, the later one, followed there by checker.ts.
  \<open>EVAL_AST\<close> and \<open>DEF\<close> have the same text in both, and both call functions through
  \<open>call\<close>. \<open>debugPrint\<close> only prints and is left out.
\<close>

subsection \<open>Evaluation of the parts of a term\<close>

text \<open>
  \<open>ast.map((item) => EVAL(item, env))\<close>: the items are evaluated from left to right, and
  the first throw ends the map. The loop over the entries of a hash map evaluates the
  values and keeps the keys.
\<close>

fun map_EVAL :: "evaluator \<Rightarrow> mal list \<Rightarrow> nat \<Rightarrow> state \<Rightarrow> (mal list) outcome" where
  "map_EVAL EVAL [] env st = Return [] st"
| "map_EVAL EVAL (item # rest) env st =
     and_then (EVAL item env st) (\<lambda>v st.
     and_then (map_EVAL EVAL rest env st) (\<lambda>vs st.
     Return (v # vs) st))"

fun map_EVAL_values ::
  "evaluator \<Rightarrow> (mal \<times> mal) list \<Rightarrow> nat \<Rightarrow> state \<Rightarrow> ((mal \<times> mal) list) outcome" where
  "map_EVAL_values EVAL [] env st = Return [] st"
| "map_EVAL_values EVAL ((key, v) # rest) env st =
     and_then (EVAL v env st) (\<lambda>x st.
     and_then (map_EVAL_values EVAL rest env st) (\<lambda>mapList st.
     Return ((key, x) # mapList) st))"

definition EVAL_AST :: "evaluator \<Rightarrow> mal \<Rightarrow> nat \<Rightarrow> state \<Rightarrow> mal outcome" where
  "EVAL_AST EVAL ast env st =
     (if isMalSymbol ast then MalEnv_get env (symbol_name ast) st
      else if isMalList ast then
        and_then (map_EVAL EVAL (items ast) env st) (\<lambda>vs st. Return (MalList vs) st)
      else if isMalVector ast then
        and_then (map_EVAL EVAL (items ast) env st) (\<lambda>vs st. Return (MalVector vs) st)
      else if isMalHashMap ast then
        (case ast of
           MalHashMap entries \<Rightarrow>
             and_then (map_EVAL_values EVAL entries env st) (\<lambda>mapList st.
             Return (MalHashMap mapList) st)
         | _ \<Rightarrow> Return ast st)
      else Return ast st)"

subsection \<open>def!, the bindings of let*, and calls\<close>

definition DEF :: "evaluator \<Rightarrow> nat \<Rightarrow> mal list \<Rightarrow> state \<Rightarrow> mal outcome" where
  "DEF EVAL env args st =
     (case checkMalInnerParameters (MalSymbol Symbols_Def) args 2 of
        Some error \<Rightarrow> Throw error st
      | None \<Rightarrow>
          let key = args ! 0; v = args ! 1 in
          case checkMalTypeIsMalSymbol key of
            Some error \<Rightarrow> Throw error st
          | None \<Rightarrow>
              and_then (EVAL v env st) (\<lambda>x st.
              Return x (MalEnv_set env (symbol_name key) x st)))"

text \<open>
  The loop of \<open>LET\<close> over \<open>bindings.group(2)\<close>: the pairs, in order (the length is even
  when the loop is reached).
\<close>

fun LET_bindings :: "evaluator \<Rightarrow> nat \<Rightarrow> mal list \<Rightarrow> state \<Rightarrow> unit outcome" where
  "LET_bindings EVAL newEnv (key # v # rest) st =
     (case checkMalTypeIsMalSymbol key of
        Some error \<Rightarrow> Throw error st
      | None \<Rightarrow>
          and_then (EVAL v newEnv st) (\<lambda>x st.
          LET_bindings EVAL newEnv rest (MalEnv_set newEnv (symbol_name key) x st)))"
| "LET_bindings EVAL newEnv rest st = Return () st"

text \<open>
  The closure that \<open>FN\<close> stores in the function (in the later step):
  \<^verbatim>\<open>(...fnArgs) => EVAL(ast, new MalEnv(env, bindings, new MalList(fnArgs)))\<close>.
  \<open>MalFunction.call\<close> of types.ts applies it; \<open>MalType.call\<close> throws its string;
  a native function is the host's.
\<close>

definition MalFunction_call :: "evaluator \<Rightarrow> nat \<Rightarrow> mal list \<Rightarrow> state \<Rightarrow> mal outcome" where
  "MalFunction_call EVAL f fnArgs st =
     (let this = funcs st ! f in
      and_then (new_MalEnv_binds (func_env this) (func_params this) fnArgs st) (\<lambda>newEnv st.
      EVAL (func_ast this) newEnv st))"

definition call :: "host \<Rightarrow> evaluator \<Rightarrow> mal \<Rightarrow> mal list \<Rightarrow> state \<Rightarrow> mal outcome" where
  "call native EVAL this args st =
     (case this of
        MalFunction f \<Rightarrow> MalFunction_call EVAL f args st
      | MalNativeFunction name \<Rightarrow> native EVAL name args st
      | _ \<Rightarrow> Throw (JsNotCallable this) st)"

section \<open>The evaluator of the earlier step\<close>

text \<open>
  \<^verbatim>\<open>src/unnamed/part_000\<close> is an earlier step of the same interpreter: the loop with
  \<open>def!\<close>, \<open>let*\<close>, \<open>do\<close>, \<open>if\<close> and \<open>fn*\<close>, and no handler around it (\<open>EVAL\<close> is the loop).
  \<open>EVAL_AST\<close> and \<open>DEF\<close> have the text of the later step and are the definitions above.
  The helpers that differ carry the suffix \<open>0\<close>.
\<close>

text \<open>
  Modelled from the spec: \<open>checkMalVectorLength\<close>, which only this step imports, is not
  among the sources; the length of the bindings of \<open>let*\<close> must be even, which is
  \<open>checkMalSequentialBaseLength\<close>. The function object keeps the vector of the parameter
  symbols where the step passes their array.
\<close>

definition LET0 :: "evaluator \<Rightarrow> nat \<Rightarrow> mal list \<Rightarrow> state \<Rightarrow> mal outcome" where
  "LET0 EVAL env args st =
     (case checkMalInnerParameters (MalSymbol Symbols_Let) args 2 of
        Some error \<Rightarrow> Throw error st
      | None \<Rightarrow>
          let bindings = args ! 0; letAst = args ! 1 in
          case checkMalTypeIsMalVector bindings of
            Some error \<Rightarrow> Throw error st
          | None \<Rightarrow>
              (case new_MalEnv (Some env) st of
                 (newEnv, st) \<Rightarrow>
                   (case checkMalSequentialBaseLength bindings 2 of
                      Some error \<Rightarrow> Throw error st
                    | None \<Rightarrow>
                        and_then (LET_bindings EVAL newEnv (items bindings) st) (\<lambda>u st.
                        EVAL letAst newEnv st))))"

definition DO0 :: "evaluator \<Rightarrow> nat \<Rightarrow> mal list \<Rightarrow> state \<Rightarrow> mal outcome" where
  "DO0 EVAL env args st =
     (case checkMalInnerMultipleParameters (MalSymbol Symbols_Do) args 1 of
        Some error \<Rightarrow> Throw error st
      | None \<Rightarrow>
          and_then (map_EVAL EVAL args env st) (\<lambda>results st.
          Return (results ! (length results - 1)) st))"

definition IF0 :: "evaluator \<Rightarrow> nat \<Rightarrow> mal list \<Rightarrow> state \<Rightarrow> mal outcome" where
  "IF0 EVAL env args st =
     (let args = (if length args = 2 then args @ [MalNil] else args) in
      case checkMalInnerParameters (MalSymbol Symbols_If) args 3 of
        Some error \<Rightarrow> Throw error st
      | None \<Rightarrow>
          let condition = args ! 0; yes = args ! 1; no = args ! 2 in
          and_then (EVAL condition env st) (\<lambda>result st.
          if isPositive result then EVAL yes env st else EVAL no env st))"

text \<open>\<open>symbols.forEach(checkMalTypeIsMalSymbol)\<close>: the first failing check throws.\<close>

primrec forEach_check :: "(mal \<Rightarrow> mal option) \<Rightarrow> mal list \<Rightarrow> mal option" where
  "forEach_check check [] = None"
| "forEach_check check (x # xs) =
     (case check x of Some error \<Rightarrow> Some error | None \<Rightarrow> forEach_check check xs)"

definition FN0 :: "nat \<Rightarrow> mal list \<Rightarrow> state \<Rightarrow> mal outcome" where
  "FN0 env args st =
     (case checkMalInnerParameters (MalSymbol Symbols_If) args 2 of
        Some error \<Rightarrow> Throw error st
      | None \<Rightarrow>
          let symbols = args ! 0; ast = args ! 1 in
          case checkMalTypeIsMalVector symbols of
            Some error \<Rightarrow> Throw error st
          | None \<Rightarrow>
              (case forEach_check checkMalTypeIsMalSymbol (items symbols) of
                 Some error \<Rightarrow> Throw error st
               | None \<Rightarrow>
                   Return (MalFunction (length (funcs st)))
                     (st\<lparr>funcs := funcs st @
                           [\<lparr>func_ast = ast, func_params = symbols, func_env = env,
                             isMacro = False\<rparr>]\<rparr>)))"

definition iteration0 :: "host \<Rightarrow> evaluator \<Rightarrow> mal \<Rightarrow> nat \<Rightarrow> state \<Rightarrow> mal outcome" where
  "iteration0 native continue ast env st =
     (let EVAL = continue in
      if \<not> isMalList ast then EVAL_AST EVAL ast env st
      else if length (items ast) \<le> 0 then Return MalNil st
      else
        let symbol = first (items ast); args = tl (items ast) in
        case checkMalTypeIsMalSymbol symbol of
          Some error \<Rightarrow> Throw error st
        | None \<Rightarrow>
            if symbol = MalSymbol Symbols_Def then DEF EVAL env args st
            else if symbol = MalSymbol Symbols_Let then
              and_then (LET0 EVAL env args st) (\<lambda>ast st. continue ast env st)
            else if symbol = MalSymbol Symbols_Do then
              and_then (DO0 EVAL env args st) (\<lambda>ast st. continue ast env st)
            else if symbol = MalSymbol Symbols_If then
              and_then (IF0 EVAL env args st) (\<lambda>ast st. continue ast env st)
            else if symbol = MalSymbol Symbols_Fn then FN0 env args st
            else
              and_then (EVAL_AST EVAL ast env st) (\<lambda>result st.
              case checkMalTypeIsMalList result of
                Some error \<Rightarrow> Throw error st
              | None \<Rightarrow>
                  let func = first (items result); args = tl (items result) in
                  if isMalFunction func then
                    (case func of
                       MalFunction f \<Rightarrow>
                         (let this = funcs st ! f in
                          and_then (new_MalEnv_binds (func_env this) (func_params this) args st)
                            (\<lambda>env st. continue (func_ast this) env st))
                     | _ \<Rightarrow> call native EVAL func args st)
                  else call native EVAL func args st))"

primrec EVAL0 :: "host \<Rightarrow> nat \<Rightarrow> mal \<Rightarrow> nat \<Rightarrow> state \<Rightarrow> mal outcome" where
  "EVAL0 native 0 = (\<lambda>ast env st. OutOfFuel)"
| "EVAL0 native (Suc n) = iteration0 native (EVAL0 native n)"

section \<open>The evaluator of the later step\<close>

text \<open>
  \<^verbatim>\<open>src/unnamed/part_001\<close>, lines 65 to 311.
\<close>

subsection \<open>EVAL: the handler around the loop\<close>

text \<open>
  \<open>EVAL\<close> runs \<open>EVAL_NOT_CATCH\<close> and catches. \<open>EVAL_catch ast error\<close> is the value the
  handler throws again: a \<open>MalError\<close> with \<open>ast\<close> pushed, any other value as it is.
  \<open>EVAL_try\<close> is \<open>EVAL\<close> with the function it wraps as an argument.
\<close>

definition EVAL_catch :: "mal \<Rightarrow> mal \<Rightarrow> mal" where
  "EVAL_catch ast error = (if isMalError error then pushAst error ast else error)"

definition EVAL_try :: "evaluator \<Rightarrow> evaluator" where
  "EVAL_try EVAL_NOT_CATCH ast env st =
     (case EVAL_NOT_CATCH ast env st of
        Return v st \<Rightarrow> Return v st
      | Throw error st \<Rightarrow> Throw (EVAL_catch ast error) st
      | OutOfFuel \<Rightarrow> OutOfFuel)"

subsection \<open>The special forms\<close>

definition LET :: "evaluator \<Rightarrow> nat \<Rightarrow> mal list \<Rightarrow> state \<Rightarrow> (mal \<times> nat) outcome" where
  "LET EVAL env args st =
     (case checkMalInnerParameters (MalSymbol Symbols_Let) args 2 of
        Some error \<Rightarrow> Throw error st
      | None \<Rightarrow>
          let bindings = args ! 0; letAst = args ! 1 in
          case checkMalTypeIsMalSequential bindings of
            Some error \<Rightarrow> Throw error st
          | None \<Rightarrow>
              (case new_MalEnv (Some env) st of
                 (newEnv, st) \<Rightarrow>
                   (case checkMalSequentialBaseLength bindings 2 of
                      Some error \<Rightarrow> Throw error st
                    | None \<Rightarrow>
                        and_then (LET_bindings EVAL newEnv (items bindings) st) (\<lambda>u st.
                        Return (letAst, newEnv) st))))"

text \<open>
  Modelled from the spec: \<open>last\<close> of the later revision of types.ts is not among the
  sources. It is the indexing that sequentials share, at the last index.
\<close>

definition last_item :: "mal list \<Rightarrow> mal" where
  "last_item this_value = get this_value (JsInteger (int (length this_value) - 1))"

definition DO :: "evaluator \<Rightarrow> nat \<Rightarrow> mal list \<Rightarrow> state \<Rightarrow> mal outcome" where
  "DO EVAL env args st =
     (case checkMalInnerMultipleParameters (MalSymbol Symbols_Do) args 1 of
        Some error \<Rightarrow> Throw error st
      | None \<Rightarrow>
          and_then (EVAL_AST EVAL (MalList args) env st) (\<lambda>results st.
          Return (last_item (items results)) st))"

definition IF :: "evaluator \<Rightarrow> nat \<Rightarrow> mal list \<Rightarrow> state \<Rightarrow> mal outcome" where
  "IF EVAL env args st =
     (let args = (if length args = 2 then args @ [MalNil] else args) in
      case checkMalInnerParameters (MalSymbol Symbols_If) args 3 of
        Some error \<Rightarrow> Throw error st
      | None \<Rightarrow>
          let condition = args ! 0; yes = args ! 1; no = args ! 2 in
          and_then (EVAL condition env st) (\<lambda>result st.
          Return (if isPositive result then yes else no) st))"

definition FN :: "nat \<Rightarrow> mal list \<Rightarrow> state \<Rightarrow> mal outcome" where
  "FN env args st =
     (let funcSymbol = MalSymbol Symbols_Fn in
      case checkMalInnerParameters funcSymbol args 2 of
        Some error \<Rightarrow> Throw error st
      | None \<Rightarrow>
          let bindings = args ! 0; ast = args ! 1 in
          case checkMalBindings funcSymbol bindings of
            Some error \<Rightarrow> Throw error st
          | None \<Rightarrow>
              Return (MalFunction (length (funcs st)))
                (st\<lparr>funcs := funcs st @
                      [\<lparr>func_ast = ast, func_params = bindings, func_env = env,
                        isMacro = False\<rparr>]\<rparr>))"

definition EVALFUNC :: "evaluator \<Rightarrow> nat \<Rightarrow> mal list \<Rightarrow> state \<Rightarrow> mal outcome" where
  "EVALFUNC EVAL env args st =
     (case checkMalInnerParameters (MalSymbol Symbols_Eval) args 1 of
        Some error \<Rightarrow> Throw error st
      | None \<Rightarrow> (let ast = args ! 0 in EVAL ast env st))"

definition QUOTE :: "nat \<Rightarrow> mal list \<Rightarrow> state \<Rightarrow> mal outcome" where
  "QUOTE env args st =
     (case checkMalInnerParameters (MalSymbol Symbols_Quote) args 1 of
        Some error \<Rightarrow> Throw error st
      | None \<Rightarrow> Return (args ! 0) st)"

text \<open>
  \<open>QUASIQUOTE\<close> reads no state: it returns the rewritten term (\<open>Inr\<close>) or throws
  (\<open>Inl\<close>). \<open>ast\<close> is \<open>args ! 0\<close>, \<open>ast1\<close> and \<open>astRest\<close> are \<open>first (items ast)\<close> and
  \<open>tl (items ast)\<close>, and so on for \<open>ast1\<close>. \<open>equal\<close> against an interned symbol is
  equality with that symbol. The recursion is on the size of the argument.
\<close>

function QUASIQUOTE :: "nat \<Rightarrow> mal list \<Rightarrow> mal + mal" where
  "QUASIQUOTE env args =
     (case checkMalInnerParameters (MalSymbol Symbols_Quasiquote) args 1 of
        Some error \<Rightarrow> Inl error
      | None \<Rightarrow>
          if \<not> isMalList (args ! 0) \<or> length (items (args ! 0)) < 1 then
            Inr (MalList [MalSymbol Symbols_Quote, args ! 0])
          else if first (items (args ! 0)) = MalSymbol Symbols_Unquote then
            (case checkMalInnerParameters (MalSymbol Symbols_Unquote) (tl (items (args ! 0))) 1 of
               Some error \<Rightarrow> Inl error
             | None \<Rightarrow> Inr (tl (items (args ! 0)) ! 0))
          else if isMalList (first (items (args ! 0)))
                  \<and> length (items (first (items (args ! 0)))) > 0
                  \<and> first (items (first (items (args ! 0)))) = MalSymbol Symbols_SpliceUnquote
          then
            (case checkMalInnerParameters (MalSymbol Symbols_SpliceUnquote)
                    (tl (items (first (items (args ! 0))))) 1 of
               Some error \<Rightarrow> Inl error
             | None \<Rightarrow>
                 (case QUASIQUOTE env [MalList (tl (items (args ! 0)))] of
                    Inl error \<Rightarrow> Inl error
                  | Inr rest \<Rightarrow>
                      Inr (MalList [MalSymbol Symbols_Concat,
                             tl (items (first (items (args ! 0)))) ! 0, rest])))
          else
            (case QUASIQUOTE env [first (items (args ! 0))] of
               Inl error \<Rightarrow> Inl error
             | Inr head \<Rightarrow>
                 (case QUASIQUOTE env [MalList (tl (items (args ! 0)))] of
                    Inl error \<Rightarrow> Inl error
                  | Inr rest \<Rightarrow> Inr (MalList [MalSymbol Symbols_Cons, head, rest]))))"
  by pat_completeness auto
termination
proof (relation "measure (\<lambda>(env, args). size_list size args)")
  show "wf (measure (\<lambda>(env, args). size_list size args))" by simp
next
  fix env :: nat and args :: "mal list"
  assume one: "checkMalInnerParameters (MalSymbol Symbols_Quasiquote) args 1 = None"
    and nonempty: "\<not> (\<not> isMalList (args ! 0) \<or> length (items (args ! 0)) < 1)"
  from one have "length args = 1"
    by (simp add: checkMalInnerParameters_def Let_def split: if_splits)
  then obtain ast where singleton: "args = [ast]" by (cases args) auto
  with nonempty have "items ast \<noteq> []" by auto
  with nonempty singleton obtain ast1 astRest where "ast = MalList (ast1 # astRest)"
    by (cases ast; cases "items ast") (auto simp add: isMalList_def isInstance_def)
  with singleton have args: "args = [MalList (ast1 # astRest)]" by simp
  have head: "first (ast1 # astRest) = ast1" by (simp add: first_def get_def js_index_def)
  show "((env, [MalList (tl (items (args ! 0)))]), env, args)
          \<in> measure (\<lambda>(env, args). size_list size args)"
    by (simp add: args)
  show "((env, [first (items (args ! 0))]), env, args)
          \<in> measure (\<lambda>(env, args). size_list size args)"
    by (simp add: args head)
  show "((env, [MalList (tl (items (args ! 0)))]), env, args)
          \<in> measure (\<lambda>(env, args). size_list size args)"
    by (simp add: args)
qed

declare QUASIQUOTE.simps [simp del]

definition DEFMACRO :: "evaluator \<Rightarrow> nat \<Rightarrow> mal list \<Rightarrow> state \<Rightarrow> mal outcome" where
  "DEFMACRO EVAL env args st =
     (case checkMalInnerParameters (MalSymbol Symbols_Defmacro) args 2 of
        Some error \<Rightarrow> Throw error st
      | None \<Rightarrow>
          let key = args ! 0; v = args ! 1 in
          case checkMalTypeIsMalSymbol key of
            Some error \<Rightarrow> Throw error st
          | None \<Rightarrow>
              and_then (EVAL v env st) (\<lambda>func st.
              case checkMalTypeIsMalFunction func of
                Some error \<Rightarrow> Throw error st
              | None \<Rightarrow>
                  (case func of
                     MalFunction f \<Rightarrow>
                       Return func
                         (MalEnv_set env (symbol_name key) func
                            (st\<lparr>funcs := (funcs st)[f := (funcs st ! f)\<lparr>isMacro := True\<rparr>]\<rparr>))
                   | _ \<Rightarrow> Throw (MalUnexpectedTokenType func [Name_MalFunction]) st)))"

definition isMacroFunction :: "nat \<Rightarrow> mal \<Rightarrow> state \<Rightarrow> bool" where
  "isMacroFunction env ast st =
     (if \<not> isMalList ast \<or> length (items ast) < 1 then False
      else
        let symbol = first (items ast) in
        if \<not> isMalSymbol symbol then False
        else if \<not> MalEnv_has env (symbol_name symbol) st then False
        else
          case MalEnv_get env (symbol_name symbol) st of
            Return func st' \<Rightarrow>
              if \<not> isMalFunction func then False
              else (case func of MalFunction f \<Rightarrow> isMacro (funcs st ! f) | _ \<Rightarrow> False)
          | _ \<Rightarrow> False)"

text \<open>
  The \<open>while\<close> loop of \<open>MACROEXPAND\<close>, with a bound on its iterations: the test needs no
  iteration, each expansion one.
\<close>

primrec MACROEXPAND_while ::
  "host \<Rightarrow> evaluator \<Rightarrow> nat \<Rightarrow> nat \<Rightarrow> mal \<Rightarrow> state \<Rightarrow> mal outcome" where
  "MACROEXPAND_while native EVAL 0 env ast st =
     (if isMacroFunction env ast st then OutOfFuel else Return ast st)"
| "MACROEXPAND_while native EVAL (Suc n) env ast st =
     (if isMacroFunction env ast st then
        (let symbol = first (items ast); args = tl (items ast) in
         and_then (MalEnv_get env (symbol_name symbol) st) (\<lambda>func st.
         and_then (call native EVAL func args st) (\<lambda>ast st.
         MACROEXPAND_while native EVAL n env ast st)))
      else Return ast st)"

definition MACROEXPAND ::
  "host \<Rightarrow> evaluator \<Rightarrow> nat \<Rightarrow> nat \<Rightarrow> mal list \<Rightarrow> state \<Rightarrow> mal outcome" where
  "MACROEXPAND native EVAL n env args st =
     (case checkMalInnerParameters (MalSymbol Symbols_Macroexpand) args 1 of
        Some error \<Rightarrow> Throw error st
      | None \<Rightarrow> (let ast = args ! 0 in MACROEXPAND_while native EVAL n env ast st))"

definition TRY :: "evaluator \<Rightarrow> nat \<Rightarrow> mal list \<Rightarrow> state \<Rightarrow> mal outcome" where
  "TRY EVAL env args st =
     (case checkMalInnerParameters (MalSymbol Symbols_Try) args 2 of
        Some error \<Rightarrow> Throw error st
      | None \<Rightarrow>
          let ast = args ! 0; catchAst = args ! 1 in
          case checkCatchAst catchAst of
            Some error \<Rightarrow> Throw error st
          | None \<Rightarrow>
              (case EVAL ast env st of
                 Return v st \<Rightarrow> Return v st
               | OutOfFuel \<Rightarrow> OutOfFuel
               | Throw error st \<Rightarrow>
                   (let errorSymbol = items catchAst ! 1; errorAst = items catchAst ! 2;
                        bindings = MalList [errorSymbol]; exprs = [error] in
                    and_then (new_MalEnv_binds env bindings exprs st) (\<lambda>newEnv st.
                    EVAL errorAst newEnv st))))"

subsection \<open>The loop\<close>

text \<open>
  The code after the \<open>switch\<close>: the application of the evaluated head to the evaluated
  arguments. \<open>continue\<close> is the loop itself.
\<close>

definition application ::
  "host \<Rightarrow> evaluator \<Rightarrow> evaluator \<Rightarrow> mal \<Rightarrow> nat \<Rightarrow> state \<Rightarrow> mal outcome" where
  "application native continue EVAL ast env st =
     and_then (EVAL_AST EVAL ast env st) (\<lambda>result st.
     case checkMalTypeIsMalList result of
       Some error \<Rightarrow> Throw error st
     | None \<Rightarrow>
         let func = first (items result); params = tl (items result) in
         if isMalFunction func then
           (case func of
              MalFunction f \<Rightarrow>
                (let this = funcs st ! f in
                 and_then (new_MalEnv_binds (func_env this) (func_params this) params st)
                   (\<lambda>env st. continue (func_ast this) env st))
            | _ \<Rightarrow> call native EVAL func params st)
         else call native EVAL func params st)"

text \<open>
  One iteration of the loop \<open>while (true)\<close> of \<open>EVAL_NOT_CATCH\<close>. \<open>continue\<close> is
  \<open>continue loop\<close>: the next iteration, with the \<open>ast\<close> and the \<open>env\<close> it is given.
  The \<open>switch\<close> compares the head with the interned symbols, and has no default.
\<close>

definition iteration ::
  "host \<Rightarrow> nat \<Rightarrow> evaluator \<Rightarrow> mal \<Rightarrow> nat \<Rightarrow> state \<Rightarrow> mal outcome" where
  "iteration native n continue ast env st =
     (let EVAL = EVAL_try continue in
      if \<not> isMalList ast then EVAL_AST EVAL ast env st
      else
        and_then (MACROEXPAND native EVAL n env [ast] st) (\<lambda>ast st.
        if \<not> isMalSequential ast then EVAL_AST EVAL ast env st
        else if length (items ast) \<le> 0 then Return MalNil st
        else
          let symbol = first (items ast); args = tl (items ast) in
          if symbol = MalSymbol Symbols_Def then DEF EVAL env args st
          else if symbol = MalSymbol Symbols_Let then
            and_then (LET EVAL env args st) (\<lambda>(ast, env) st. continue ast env st)
          else if symbol = MalSymbol Symbols_Do then
            and_then (DO EVAL env args st) (\<lambda>ast st. continue ast env st)
          else if symbol = MalSymbol Symbols_If then
            and_then (IF EVAL env args st) (\<lambda>ast st. continue ast env st)
          else if symbol = MalSymbol Symbols_Fn then FN env args st
          else if symbol = MalSymbol Symbols_Eval then
            and_then (EVALFUNC EVAL env args st) (\<lambda>ast st. continue ast env st)
          else if symbol = MalSymbol Symbols_Quote then QUOTE env args st
          else if symbol = MalSymbol Symbols_Quasiquote then
            (case QUASIQUOTE env args of
               Inl error \<Rightarrow> Throw error st
             | Inr ast \<Rightarrow> continue ast env st)
          else if symbol = MalSymbol Symbols_Defmacro then DEFMACRO EVAL env args st
          else if symbol = MalSymbol Symbols_Macroexpand then
            and_then (MACROEXPAND native EVAL n env args st) (\<lambda>ast st. continue ast env st)
          else if symbol = MalSymbol Symbols_Try then TRY EVAL env args st
          else application native continue EVAL ast env st))"

text \<open>
  \<open>EVAL_NOT_CATCH native n\<close> runs at most \<open>n\<close> iterations of the loop, each nested
  evaluation and each expansion of a macro with the bound that is left.
\<close>

primrec EVAL_NOT_CATCH :: "host \<Rightarrow> nat \<Rightarrow> mal \<Rightarrow> nat \<Rightarrow> state \<Rightarrow> mal outcome" where
  "EVAL_NOT_CATCH native 0 = (\<lambda>ast env st. OutOfFuel)"
| "EVAL_NOT_CATCH native (Suc n) = iteration native n (EVAL_NOT_CATCH native n)"

definition EVAL :: "host \<Rightarrow> nat \<Rightarrow> mal \<Rightarrow> nat \<Rightarrow> state \<Rightarrow> mal outcome" where
  "EVAL native n = EVAL_try (EVAL_NOT_CATCH native n)"

text \<open>
  \<open>const GlobalEnv = new MalEnv()\<close> is the first frame of the store.
\<close>

definition GlobalEnv :: nat where
  "GlobalEnv = 0"

definition initial_state :: state where
  "initial_state = \<lparr>frames = [\<lparr>outer = None, data = []\<rparr>], funcs = []\<rparr>"

section \<open>Concrete hosts, states and forms\<close>

text \<open>A host with no native function at all.\<close>

definition no_native :: host where
  "no_native ev name args st = Throw (JsNotCallable (MalNativeFunction name)) st"

text \<open>
  Modelled from the spec: core.ts is not among the sources. \<open>list\<close> is the built-in of
  the sequence operations that returns the List of its (evaluated) arguments.
\<close>

definition core_list :: host where
  "core_list ev name args st =
     (if name = ''list'' then Return (MalList args) st
      else Throw (JsNotCallable (MalNativeFunction name)) st)"

definition state_with_list :: state where
  "state_with_list =
     \<lparr>frames = [\<lparr>outer = None, data = [(''list'', MalNativeFunction ''list'')]\<rparr>], funcs = []\<rparr>"

text \<open>\<open>(if true (list 1 2))\<close>\<close>

definition if_true_list :: mal where
  "if_true_list =
     MalList [MalSymbol ''if'', MalBoolean True,
              MalList [MalSymbol ''list'', MalNumber 1, MalNumber 2]]"

text \<open>
  A root frame that binds \<open>a\<close> to 2 and a child frame that binds \<open>a\<close> to 1, as inside
  \<open>(let* [a 1] ...)\<close> at top level after \<open>(def! a 2)\<close>; and the form \<open>(eval (quote a))\<close>.
\<close>

definition state_a_shadowed :: state where
  "state_a_shadowed =
     \<lparr>frames = [\<lparr>outer = None, data = [(''a'', MalNumber 2)]\<rparr>,
                 \<lparr>outer = Some 0, data = [(''a'', MalNumber 1)]\<rparr>],
       funcs = []\<rparr>"

definition eval_quote_a :: mal where
  "eval_quote_a = MalList [MalSymbol ''eval'', MalList [MalSymbol ''quote'', MalSymbol ''a'']]"

text \<open>
  The state after \<open>(def! a 2)\<close> at top level, and the form
  \<open>(let* [a 1] (eval (quote a)))\<close>, which leaves \<open>state_a_shadowed\<close>.
\<close>

definition state_a_root :: state where
  "state_a_root = \<lparr>frames = [\<lparr>outer = None, data = [(''a'', MalNumber 2)]\<rparr>], funcs = []\<rparr>"

definition let_a_eval_quote_a :: mal where
  "let_a_eval_quote_a =
     MalList [MalSymbol ''let*'', MalVector [MalSymbol ''a'', MalNumber 1], eval_quote_a]"

text \<open>\<open>(try* (if) (catch* e e))\<close>: the body is an \<open>if\<close> with no argument.\<close>

definition try_if_catch :: "mal list" where
  "try_if_catch =
     [MalList [MalSymbol ''if''],
      MalList [MalSymbol ''catch*'', MalSymbol ''e'', MalSymbol ''e'']]"




text \<open>
  A root frame where \<open>m\<close> is a macro that returns its argument (\<open>(fn* [x] x)\<close> marked
  by \<open>defmacro!\<close>), \<open>f\<close> a function that is no macro, and \<open>n\<close> a number.
\<close>

definition state_with_macro :: state where
  "state_with_macro =
     \<lparr>frames = [\<lparr>outer = None,
                  data = [(''m'', MalFunction 0), (''f'', MalFunction 1), (''n'', MalNumber 3)]\<rparr>],
       funcs = [\<lparr>func_ast = MalSymbol ''x'', func_params = MalVector [MalSymbol ''x''],
                  func_env = 0, isMacro = True\<rparr>,
                \<lparr>func_ast = MalSymbol ''x'', func_params = MalVector [MalSymbol ''x''],
                  func_env = 0, isMacro = False\<rparr>]\<rparr>"

section \<open>Basic facts\<close>

lemma first_Cons [simp]: "first (x # xs) = x"
  by (simp add: first_def get_def js_index_def)

lemma checkMalInnerParameters_None:
  "checkMalInnerParameters symbol parameters excepted = None
     \<longleftrightarrow> length parameters = excepted"
  by (simp add: checkMalInnerParameters_def Let_def)

lemma isMalList_iff: "isMalList x \<longleftrightarrow> (\<exists>v. x = MalList v)"
  by (cases x) (simp_all add: isMalList_def isInstance_def)

section \<open>Evaluation of concrete forms\<close>

text \<open>
  The equations that unfold the model on a concrete form. Every closed example below is
  computed from them by rewriting.
\<close>

lemmas checker_defs =
  isInstance_def checkMalType_def checkMalInnerParameters_def
  checkMalInnerMultipleParameters_def checkMalSequentialBaseLength_def
  checkMalTypeIsMalSymbol_def checkMalTypeIsMalSequential_def checkMalTypeIsMalVector_def
  checkMalTypeIsMalList_def checkMalTypeIsMalFunction_def isMalFalse_def isPositive_def
  isMalList_def isMalVector_def isMalSequential_def isMalHashMap_def isMalSymbol_def
  isMalFunction_def isMalError_def isRestMalSymbol_def isMalSymbolCatch_def
  checkMalBindings_def checkCatchAst_def symbol_name_def

lemmas error_defs =
  host_error_def MalParametersError_def MalMultipleParametersError_def
  MalUnexpectedLength_def MalUnexpectedTokenType_def MalInvalidRestParameter_def
  UnboundSymbol_def ArityError_def pushAst_def

lemmas env_defs =
  MalEnv_find.simps MalEnv_has_def MalEnv_get_def MalEnv_set_def new_MalEnv_def
  new_MalEnv_binds_def GlobalEnv_def

lemmas evaluator_defs =
  and_then_def EVAL_catch_def EVAL_try_def EVAL_AST_def DEF_def LET_def last_item_def DO_def
  IF_def FN_def MalFunction_call_def call_def EVALFUNC_def QUOTE_def DEFMACRO_def
  isMacroFunction_def MACROEXPAND_def TRY_def application_def iteration_def EVAL_def
  LET0_def DO0_def IF0_def FN0_def iteration0_def get_def js_index_def first_def Let_def

section \<open>Properties of types.ts\<close>

text \<open>
  The body of \<open>get\<close> on the array it reads: the element at an integer index in range,
  \<open>MalUndefined\<close> at every other index; and \<open>first\<close> of an empty array and of a
  non-empty one.
\<close>

lemma get_of_array:
  "get v (JsInteger i) = (if 0 \<le> i \<and> i < int (length v) then v ! nat i else MalUndefined)
   \<and> get v JsNonInteger = MalUndefined
   \<and> (get v index = MalUndefined \<or> get v index \<in> set v)
   \<and> first [] = MalUndefined
   \<and> first (x # xs) = x"
proof -
  have in_range: "get v (JsInteger i) =
      (if 0 \<le> i \<and> i < int (length v) then v ! nat i else MalUndefined)"
    by (simp add: get_def js_index_def)
  have non_integer: "get v JsNonInteger = MalUndefined"
    by (simp add: get_def js_index_def)
  have element: "get v index = MalUndefined \<or> get v index \<in> set v"
  proof (cases index)
    case (JsInteger k)
    show ?thesis
    proof (cases "0 \<le> k \<and> k < int (length v)")
      case True
      then have "nat k < length v" by linarith
      then have "v ! nat k \<in> set v" by (rule nth_mem)
      with True JsInteger show ?thesis by (simp add: get_def js_index_def)
    next
      case False
      with JsInteger show ?thesis by (auto simp add: get_def js_index_def)
    qed
  next
    case JsNonInteger
    then show ?thesis by (simp add: non_integer)
  qed
  have empty: "first [] = MalUndefined"
    by (simp add: first_def get_def js_index_def)
  have head: "first (x # xs) = x"
    by (simp add: first_def get_def js_index_def)
  from in_range non_integer element empty head show ?thesis by blast
qed

lemma MalList_has_get_and_first:
  "has_method Name_MalList ''get'' \<and> has_method Name_MalList ''first''"
  by (simp add: has_method_def)

text \<open>
  C9, as the claim states it, fails for a Vector: \<open>MalVector\<close> declares no \<open>get\<close> and
  no \<open>first\<close> and inherits none, so the calls on the vector \<open>[1]\<close> and on the empty
  vector throw instead of returning a term.
\<close>

theorem MalVector_get_counterexample:
  "call_get Name_MalVector [MalNumber 1] (JsInteger 0) = Inl TypeError_not_a_function
   \<and> call_first Name_MalVector [] = Inl TypeError_not_a_function"
  by (simp add: call_get_def call_first_def has_method_def)

text \<open>
  C9, amended. Indexing a \<open>MalList\<close> is total. For every \<open>MalList\<close> and every index,
  the call of \<open>get\<close> returns a term and does not throw: the element at an integer index
  in range, and \<open>MalUndefined\<close> at every other index; so \<open>first\<close> of an empty
  \<open>MalList\<close> returns \<open>MalUndefined\<close>, and of a non-empty one its head.
\<close>

theorem MalList_get_total:
  "call_get Name_MalList v (JsInteger i)
     = Inr (if 0 \<le> i \<and> i < int (length v) then v ! nat i else MalUndefined)
   \<and> call_get Name_MalList v JsNonInteger = Inr MalUndefined
   \<and> (\<exists>t. call_get Name_MalList v index = Inr t \<and> (t = MalUndefined \<or> t \<in> set v))
   \<and> call_first Name_MalList [] = Inr MalUndefined
   \<and> call_first Name_MalList (x # xs) = Inr x"
proof -
  from get_of_array [of v i index x xs] MalList_has_get_and_first show ?thesis
    by (simp add: call_get_def call_first_def)
qed

theorem MalList_get_total_witness:
  "call_get Name_MalList [MalNumber 7, MalNil] (JsInteger 1) = Inr MalNil
   \<and> call_get Name_MalList [MalNumber 7, MalNil] (JsInteger 2) = Inr MalUndefined
   \<and> call_get Name_MalList [MalNumber 7, MalNil] (JsInteger (- 1)) = Inr MalUndefined
   \<and> call_first Name_MalList [] = Inr MalUndefined"
  using MalList_get_total [of "[MalNumber 7, MalNil]" 1]
    MalList_get_total [of "[MalNumber 7, MalNil]" 2]
    MalList_get_total [of "[MalNumber 7, MalNil]" "- 1"]
  by simp

text \<open>
  C3, as the claim states it, fails: the list \<open>(1)\<close> and the vector \<open>[1]\<close> of
  \<open>heap_list_vector\<close> have pairwise equal elements (the same number object), and
  \<open>equal\<close> of the two is false.
\<close>

theorem equal_list_vector_counterexample:
  "type_of heap_list_vector 0 = Name_MalList
   \<and> type_of heap_list_vector 1 = Name_MalVector
   \<and> list_all2 (equal_MalType heap_list_vector)
        (elements heap_list_vector 0) (elements heap_list_vector 1)
   \<and> \<not> equal_MalType heap_list_vector 0 1"
  by (simp add: heap_list_vector_def elements_def equal_MalType_def valueEqual_def)

text \<open>
  C3, amended. \<open>equal\<close> of a \<open>MalList\<close> and a \<open>MalVector\<close> is false whatever their
  elements are: the two are different objects, and \<open>valueEqual\<close> compares the class names
  first. Two objects whose values are arrays are equal only when they are one object, or
  are of the same class and hold one and the same array.
\<close>

theorem equal_list_vector_false:
  "(type_of h l = Name_MalList \<and> type_of h v = Name_MalVector \<longrightarrow> \<not> equal_MalType h l v)
   \<and> (value_of h a = JsReference r \<and> value_of h b = JsReference s \<longrightarrow>
        (equal_MalType h a b \<longleftrightarrow> a = b \<or> (type_of h a = type_of h b \<and> r = s)))"
proof -
  have different: "\<not> equal_MalType h l v"
    if "type_of h l = Name_MalList" and "type_of h v = Name_MalVector"
  proof -
    from that have "l \<noteq> v" by auto
    moreover from that have "\<not> valueEqual h l v" by (simp add: valueEqual_def)
    ultimately show ?thesis by (simp add: equal_MalType_def)
  qed
  have arrays: "equal_MalType h a b \<longleftrightarrow> a = b \<or> (type_of h a = type_of h b \<and> r = s)"
    if "value_of h a = JsReference r" and "value_of h b = JsReference s"
    using that by (simp add: equal_MalType_def valueEqual_def)
  from different arrays show ?thesis by blast
qed

theorem equal_list_vector_false_witness:
  "type_of heap_list_vector 0 = Name_MalList \<and> type_of heap_list_vector 1 = Name_MalVector
   \<and> value_of heap_list_vector 0 = JsReference 10
   \<and> value_of heap_list_vector 1 = JsReference 11
   \<and> \<not> equal_MalType heap_list_vector 0 1"
proof -
  have l: "type_of heap_list_vector 0 = Name_MalList" by (simp add: heap_list_vector_def)
  have v: "type_of heap_list_vector 1 = Name_MalVector" by (simp add: heap_list_vector_def)
  have a: "value_of heap_list_vector 0 = JsReference 10" by (simp add: heap_list_vector_def)
  have b: "value_of heap_list_vector 1 = JsReference 11" by (simp add: heap_list_vector_def)
  from l v equal_list_vector_false [of heap_list_vector 0 1 0 10 1 11]
  have "\<not> equal_MalType heap_list_vector 0 1" by blast
  with l v a b show ?thesis by simp
qed

section \<open>Properties of the start-up\<close>

text \<open>
  C4, as the claim states it, fails: the second source string evaluated at start-up is not
  the one the specification gives.
\<close>

theorem bootstrap_load_file_counterexample:
  "bootstrap ! 1 \<noteq> spec_load_file"
  by (simp add: bootstrap_def spec_load_file_def)

text \<open>
  C4, amended. After the built-ins are installed, four source strings are evaluated in
  order, and the second defines \<open>load-file\<close> through \<open>read-str\<close>, wrapping the slurped
  contents in a \<open>do\<close> form that ends with the contents.
\<close>

theorem bootstrap_load_file:
  \<open>length bootstrap = 4
   \<and> startup = [Install_core, Rep (bootstrap ! 0), Rep (bootstrap ! 1), Rep (bootstrap ! 2),
        Rep (bootstrap ! 3)]
   \<and> bootstrap ! 1 =
       ''(def! load-file (fn* (path) (eval (read-str (str "(do " (slurp path) ")")))))''\<close>
  by (simp add: bootstrap_def startup_def)

section \<open>Properties of macro expansion\<close>

text \<open>
  A helper is stated for every evaluator \<open>ev\<close> and every host it may be given; in the
  interpreter the evaluator is \<open>EVAL native m\<close>, as in the concrete examples.
\<close>

lemma MACROEXPAND_while_not_macro:
  "\<not> isMacroFunction env ast st \<Longrightarrow> MACROEXPAND_while native ev n env ast st = Return ast st"
  by (cases n) simp_all

lemma MACROEXPAND_while_result:
  "MACROEXPAND_while native ev n env ast st = Return r st' \<Longrightarrow> \<not> isMacroFunction env r st'"
proof (induction n arbitrary: ast st)
  case 0
  then show ?case by (simp split: if_splits)
next
  case (Suc n)
  show ?case
  proof (cases "isMacroFunction env ast st")
    case False
    with Suc.prems show ?thesis by simp
  next
    case True
    with Suc.prems obtain func st1 ast2 st2
      where "MACROEXPAND_while native ev n env ast2 st2 = Return r st'"
      by (auto simp add: and_then_def Let_def split: outcome.splits)
    then show ?thesis by (rule Suc.IH)
  qed
qed

lemma MACROEXPAND_singleton:
  "MACROEXPAND native ev n env [ast] st = MACROEXPAND_while native ev n env ast st"
  by (simp add: MACROEXPAND_def checkMalInnerParameters_def)

text \<open>
  C10. For every non-empty List whose head is a Symbol that is not bound in the
  environment, or is bound to a term that is no Function, or is bound to a Function whose
  \<open>isMacro\<close> is false, \<open>MACROEXPAND\<close> returns the List unchanged, in the unchanged
  state, for every bound on the iterations (none is needed): it does not throw, the
  lookup of an unbound head included, since \<open>isMacroFunction\<close> asks \<open>has\<close> before \<open>get\<close>.
\<close>

theorem MACROEXPAND_no_macro_unchanged:
  assumes "\<not> MalEnv_has env name st
           \<or> (\<exists>v. MalEnv_get env name st = Return v st \<and> \<not> isMalFunction v)
           \<or> (\<exists>f. MalEnv_get env name st = Return (MalFunction f) st
                    \<and> \<not> isMacro (funcs st ! f))"
  shows "MACROEXPAND native ev n env [MalList (MalSymbol name # rest)] st
           = Return (MalList (MalSymbol name # rest)) st"
proof -
  from assms have "\<not> isMacroFunction env (MalList (MalSymbol name # rest)) st"
    by (auto simp add: isMacroFunction_def symbol_name_def Let_def split: if_splits)
  then show ?thesis
    by (simp add: MACROEXPAND_singleton MACROEXPAND_while_not_macro)
qed

theorem MACROEXPAND_no_macro_unchanged_witness:
  "MACROEXPAND no_native (EVAL no_native 2) 0 GlobalEnv
       [MalList [MalSymbol ''unbound'', MalNumber 1]] state_with_macro
     = Return (MalList [MalSymbol ''unbound'', MalNumber 1]) state_with_macro
   \<and> MACROEXPAND no_native (EVAL no_native 2) 0 GlobalEnv
       [MalList [MalSymbol ''n'', MalNumber 1]] state_with_macro
     = Return (MalList [MalSymbol ''n'', MalNumber 1]) state_with_macro
   \<and> MACROEXPAND no_native (EVAL no_native 2) 0 GlobalEnv
       [MalList [MalSymbol ''f'', MalNumber 1]] state_with_macro
     = Return (MalList [MalSymbol ''f'', MalNumber 1]) state_with_macro"
proof -
  have unbound: "\<not> MalEnv_has GlobalEnv ''unbound'' state_with_macro"
    by (simp add: MalEnv_has_def GlobalEnv_def state_with_macro_def MalEnv_find.simps)
  have number: "MalEnv_get GlobalEnv ''n'' state_with_macro = Return (MalNumber 3) state_with_macro
      \<and> \<not> isMalFunction (MalNumber 3)"
    by (simp add: MalEnv_get_def GlobalEnv_def state_with_macro_def MalEnv_find.simps
        isMalFunction_def isInstance_def)
  have no_macro: "MalEnv_get GlobalEnv ''f'' state_with_macro
        = Return (MalFunction 1) state_with_macro
      \<and> \<not> isMacro (funcs state_with_macro ! 1)"
    by (simp add: MalEnv_get_def GlobalEnv_def state_with_macro_def MalEnv_find.simps)
  from unbound number no_macro
    MACROEXPAND_no_macro_unchanged [of GlobalEnv "''unbound''" state_with_macro
      no_native "EVAL no_native 2" 0 "[MalNumber 1]"]
    MACROEXPAND_no_macro_unchanged [of GlobalEnv "''n''" state_with_macro
      no_native "EVAL no_native 2" 0 "[MalNumber 1]"]
    MACROEXPAND_no_macro_unchanged [of GlobalEnv "''f''" state_with_macro
      no_native "EVAL no_native 2" 0 "[MalNumber 1]"]
  show ?thesis by blast
qed

text \<open>
  C8. \<open>MACROEXPAND\<close> is idempotent. Expanding the result of an expansion, in the state
  the expansion left, is the expansion: the two runs in sequence have the outcome of the
  first, whether it returns, throws or is cut off. When the first run returns, its
  result is no macro call in the state it leaves (no non-empty List whose head Symbol
  resolves to a Function with \<open>isMacro\<close> set), and expanding it again returns it
  unchanged for every bound.
\<close>

theorem MACROEXPAND_idempotent:
  "and_then (MACROEXPAND native ev n env [ast] st) (\<lambda>r st'. MACROEXPAND native ev n env [r] st')
     = MACROEXPAND native ev n env [ast] st
   \<and> (\<forall>r st'. MACROEXPAND native ev n env [ast] st = Return r st' \<longrightarrow>
         \<not> isMacroFunction env r st'
         \<and> (\<forall>k. MACROEXPAND native ev k env [r] st' = Return r st'))"
proof -
  have again: "\<not> isMacroFunction env r st' \<and> (\<forall>k. MACROEXPAND native ev k env [r] st' = Return r st')"
    if "MACROEXPAND native ev n env [ast] st = Return r st'" for r st'
  proof -
    from that have "MACROEXPAND_while native ev n env ast st = Return r st'"
      by (simp add: MACROEXPAND_singleton)
    then have "\<not> isMacroFunction env r st'" by (rule MACROEXPAND_while_result)
    then show ?thesis by (simp add: MACROEXPAND_singleton MACROEXPAND_while_not_macro)
  qed
  have "and_then (MACROEXPAND native ev n env [ast] st)
          (\<lambda>r st'. MACROEXPAND native ev n env [r] st')
        = MACROEXPAND native ev n env [ast] st"
  proof (cases "MACROEXPAND native ev n env [ast] st")
    case (Return r st')
    with again [OF Return] show ?thesis by (simp add: and_then_def)
  next
    case (Throw error st')
    then show ?thesis by (simp add: and_then_def)
  next
    case OutOfFuel
    then show ?thesis by (simp add: and_then_def)
  qed
  with again show ?thesis by blast
qed

theorem MACROEXPAND_idempotent_witness:
  "MACROEXPAND no_native (EVAL no_native (Suc 0)) (Suc (Suc 0)) GlobalEnv
       [MalList [MalSymbol ''m'', MalList [MalSymbol ''m'', MalList [MalSymbol ''f'']]]]
       state_with_macro
     = Return (MalList [MalSymbol ''f''])
         (state_with_macro\<lparr>frames := frames state_with_macro @
            [\<lparr>outer = Some 0,
               data = [(''x'', MalList [MalSymbol ''m'', MalList [MalSymbol ''f'']])]\<rparr>,
             \<lparr>outer = Some 0, data = [(''x'', MalList [MalSymbol ''f''])]\<rparr>]\<rparr>)
   \<and> MACROEXPAND no_native (EVAL no_native (Suc 0)) (Suc (Suc 0)) GlobalEnv
       [MalList [MalSymbol ''f'']]
       (state_with_macro\<lparr>frames := frames state_with_macro @
            [\<lparr>outer = Some 0,
               data = [(''x'', MalList [MalSymbol ''m'', MalList [MalSymbol ''f'']])]\<rparr>,
             \<lparr>outer = Some 0, data = [(''x'', MalList [MalSymbol ''f''])]\<rparr>]\<rparr>)
     = Return (MalList [MalSymbol ''f''])
         (state_with_macro\<lparr>frames := frames state_with_macro @
            [\<lparr>outer = Some 0,
               data = [(''x'', MalList [MalSymbol ''m'', MalList [MalSymbol ''f'']])]\<rparr>,
             \<lparr>outer = Some 0, data = [(''x'', MalList [MalSymbol ''f''])]\<rparr>]\<rparr>)"
proof -
  have first_run:
    "MACROEXPAND no_native (EVAL no_native (Suc 0)) (Suc (Suc 0)) GlobalEnv
       [MalList [MalSymbol ''m'', MalList [MalSymbol ''m'', MalList [MalSymbol ''f'']]]]
       state_with_macro
     = Return (MalList [MalSymbol ''f''])
         (state_with_macro\<lparr>frames := frames state_with_macro @
            [\<lparr>outer = Some 0,
               data = [(''x'', MalList [MalSymbol ''m'', MalList [MalSymbol ''f'']])]\<rparr>,
             \<lparr>outer = Some 0, data = [(''x'', MalList [MalSymbol ''f''])]\<rparr>]\<rparr>)"
    by (simp add: state_with_macro_def no_native_def checker_defs error_defs env_defs
        evaluator_defs)
  with MACROEXPAND_idempotent [of no_native "EVAL no_native (Suc 0)" "Suc (Suc 0)" GlobalEnv
      "MalList [MalSymbol ''m'', MalList [MalSymbol ''m'', MalList [MalSymbol ''f'']]]"
      state_with_macro]
  show ?thesis by simp
qed

section \<open>Properties of error handling\<close>







lemma bind_one_parameter:
  assumes "name \<noteq> ''&''"
  shows "new_MalEnv_binds env (MalList [MalSymbol name]) [error] st
           = Return (length (frames st))
               (st\<lparr>frames := frames st @ [\<lparr>outer = Some env, data = [(name, error)]\<rparr>]\<rparr>)"
  using assms
  by (simp add: new_MalEnv_binds_def isMalSequential_def isMalSymbol_def isRestMalSymbol_def
      isInstance_def symbol_name_def)

text \<open>
  C6, as the claim states it, fails. In \<open>(try* (if) (catch* e e))\<close> the body throws the
  parameters error of \<open>IF\<close>, a \<open>MalError\<close>. The catch symbol \<open>e\<close> is bound, in the
  child frame, to the error itself with the trace it has at the try site, and that is what
  the form returns: an error wrapper, not the term it wraps.
\<close>

theorem TRY_binds_error_counterexample:
  "TRY (EVAL no_native (Suc 0)) GlobalEnv try_if_catch initial_state
     = Return (MalError (MalList [MalString ''MalParametersError'', MalSymbol ''if'',
                                   MalNumber 0, MalNumber 3])
                 [MalList [MalSymbol ''if'']])
         (initial_state\<lparr>frames := frames initial_state @
            [\<lparr>outer = Some GlobalEnv,
               data = [(''e'', MalError (MalList [MalString ''MalParametersError'',
                                           MalSymbol ''if'', MalNumber 0, MalNumber 3])
                                 [MalList [MalSymbol ''if'']])]\<rparr>]\<rparr>)
   \<and> isMalError (MalError (MalList [MalString ''MalParametersError'', MalSymbol ''if'',
                                     MalNumber 0, MalNumber 3])
                   [MalList [MalSymbol ''if'']])
   \<and> MalError (MalList [MalString ''MalParametersError'', MalSymbol ''if'',
                          MalNumber 0, MalNumber 3])
        [MalList [MalSymbol ''if'']]
     \<noteq> MalList [MalString ''MalParametersError'', MalSymbol ''if'', MalNumber 0, MalNumber 3]"
  by (simp add: try_if_catch_def initial_state_def checker_defs error_defs env_defs
      evaluator_defs)

text \<open>
  C6, amended. For every \<open>(try* a (catch* name body))\<close> whose catch symbol is not the
  rest marker: if evaluating \<open>a\<close> throws, \<open>name\<close> is bound, in a child environment of
  the try-site environment, to the thrown value itself (a \<open>MalError\<close> is bound as the
  error it is, trace included, and is not unwrapped), and \<open>body\<close> is evaluated there; if
  evaluating \<open>a\<close> does not throw, its value is returned and nothing is bound.
\<close>

theorem TRY_binds_thrown_value:
  assumes "name \<noteq> ''&''"
  shows "TRY ev env [a, MalList [MalSymbol ''catch*'', MalSymbol name, body]] st
           = (case ev a env st of
                Return v st' \<Rightarrow> Return v st'
              | Throw error st' \<Rightarrow>
                  ev body (length (frames st'))
                    (st'\<lparr>frames := frames st' @
                           [\<lparr>outer = Some env, data = [(name, error)]\<rparr>]\<rparr>)
              | OutOfFuel \<Rightarrow> OutOfFuel)"
proof -
  have checks: "checkCatchAst (MalList [MalSymbol ''catch*'', MalSymbol name, body]) = None"
    by (simp add: checker_defs Let_def)
  show ?thesis
  proof (cases "ev a env st")
    case (Throw error st')
    with checks bind_one_parameter [OF assms, of env error st'] show ?thesis
      by (simp add: TRY_def checkMalInnerParameters_def Let_def and_then_def)
  qed (simp_all add: TRY_def checkMalInnerParameters_def Let_def checks)
qed

theorem TRY_binds_thrown_value_witness:
  "''e'' \<noteq> ''&''
   \<and> TRY (EVAL no_native (Suc 0)) GlobalEnv try_if_catch initial_state
     = Return (MalError (MalList [MalString ''MalParametersError'', MalSymbol ''if'',
                                   MalNumber 0, MalNumber 3])
                 [MalList [MalSymbol ''if'']])
         (initial_state\<lparr>frames := frames initial_state @
            [\<lparr>outer = Some GlobalEnv,
               data = [(''e'', MalError (MalList [MalString ''MalParametersError'',
                                           MalSymbol ''if'', MalNumber 0, MalNumber 3])
                                 [MalList [MalSymbol ''if'']])]\<rparr>]\<rparr>)
   \<and> TRY (EVAL no_native (Suc 0)) GlobalEnv
       [MalNumber 5, MalList [MalSymbol ''catch*'', MalSymbol ''e'', MalSymbol ''e'']]
       initial_state
     = Return (MalNumber 5) initial_state"
proof -
  have name: "''e'' \<noteq> ''&''" by simp
  have thrown: "EVAL no_native (Suc 0) (MalList [MalSymbol ''if'']) GlobalEnv initial_state
      = Throw (MalError (MalList [MalString ''MalParametersError'', MalSymbol ''if'',
                                   MalNumber 0, MalNumber 3])
                 [MalList [MalSymbol ''if'']]) initial_state"
    by (simp add: initial_state_def checker_defs error_defs env_defs evaluator_defs)
  have returned: "EVAL no_native (Suc 0) (MalNumber 5) GlobalEnv initial_state
      = Return (MalNumber 5) initial_state"
    by (simp add: initial_state_def checker_defs error_defs env_defs evaluator_defs)
  have body: "EVAL no_native (Suc 0) (MalSymbol ''e'') (length (frames initial_state))
       (initial_state\<lparr>frames := frames initial_state @
            [\<lparr>outer = Some GlobalEnv,
               data = [(''e'', MalError (MalList [MalString ''MalParametersError'',
                                           MalSymbol ''if'', MalNumber 0, MalNumber 3])
                                 [MalList [MalSymbol ''if'']])]\<rparr>]\<rparr>)
      = Return (MalError (MalList [MalString ''MalParametersError'', MalSymbol ''if'',
                                   MalNumber 0, MalNumber 3])
                 [MalList [MalSymbol ''if'']])
         (initial_state\<lparr>frames := frames initial_state @
            [\<lparr>outer = Some GlobalEnv,
               data = [(''e'', MalError (MalList [MalString ''MalParametersError'',
                                           MalSymbol ''if'', MalNumber 0, MalNumber 3])
                                 [MalList [MalSymbol ''if'']])]\<rparr>]\<rparr>)"
    by (simp add: initial_state_def checker_defs error_defs env_defs evaluator_defs)
  from name thrown returned body
    TRY_binds_thrown_value [OF name, of "EVAL no_native (Suc 0)" GlobalEnv
      "MalList [MalSymbol ''if'']" "MalSymbol ''e''" initial_state]
    TRY_binds_thrown_value [OF name, of "EVAL no_native (Suc 0)" GlobalEnv
      "MalNumber 5" "MalSymbol ''e''" initial_state]
  show ?thesis by (simp add: try_if_catch_def)
qed

section \<open>Properties of the quasiquote rewrite\<close>

lemma QUASIQUOTE_not_list:
  "\<not> isMalList x \<or> items x = [] \<Longrightarrow> QUASIQUOTE env [x] = Inr (MalList [MalSymbol ''quote'', x])"
  by (auto simp add: QUASIQUOTE.simps [of env "[x]"] checkMalInnerParameters_def)

lemma QUASIQUOTE_unquote:
  "QUASIQUOTE env [MalList (MalSymbol ''unquote'' # astRest)]
     = (case checkMalInnerParameters (MalSymbol ''unquote'') astRest 1 of
          Some error \<Rightarrow> Inl error
        | None \<Rightarrow> Inr (astRest ! 0))"
  by (simp add: QUASIQUOTE.simps [of env "[MalList (MalSymbol ''unquote'' # astRest)]"]
      checkMalInnerParameters_def isMalList_def isInstance_def Let_def)

lemma QUASIQUOTE_splice_unquote:
  "QUASIQUOTE env [MalList (MalList (MalSymbol ''splice-unquote'' # ast1Rest) # astRest)]
     = (case checkMalInnerParameters (MalSymbol ''splice-unquote'') ast1Rest 1 of
          Some error \<Rightarrow> Inl error
        | None \<Rightarrow>
            (case QUASIQUOTE env [MalList astRest] of
               Inl error \<Rightarrow> Inl error
             | Inr rest \<Rightarrow> Inr (MalList [MalSymbol ''concat'', ast1Rest ! 0, rest])))"
  by (simp add: QUASIQUOTE.simps
        [of env "[MalList (MalList (MalSymbol ''splice-unquote'' # ast1Rest) # astRest)]"]
      checkMalInnerParameters_def isMalList_def isInstance_def Let_def
      cong: sum.case_cong)

lemma QUASIQUOTE_cons:
  assumes "ast1 \<noteq> MalSymbol ''unquote''"
    and "\<not> (isMalList ast1 \<and> 0 < length (items ast1)
             \<and> first (items ast1) = MalSymbol ''splice-unquote'')"
  shows "QUASIQUOTE env [MalList (ast1 # astRest)]
     = (case QUASIQUOTE env [ast1] of
          Inl error \<Rightarrow> Inl error
        | Inr head \<Rightarrow>
            (case QUASIQUOTE env [MalList astRest] of
               Inl error \<Rightarrow> Inl error
             | Inr rest \<Rightarrow> Inr (MalList [MalSymbol ''cons'', head, rest])))"
proof -
  have list: "isMalList (MalList (ast1 # astRest))" by (simp add: isMalList_iff)
  show ?thesis
    using assms list
    by (subst QUASIQUOTE.simps)
      (auto simp add: checkMalInnerParameters_def Let_def cong: sum.case_cong)
qed

lemma not_its_own_quotation:
  "y \<noteq> MalList [q, MalList (u # [y])]"
proof
  assume "y = MalList [q, MalList (u # [y])]"
  then have "size y = size (MalList [q, MalList (u # [y])])" by simp
  then show False by simp
qed

lemma QUASIQUOTE_nonempty_list:
  "QUASIQUOTE env [MalList (ast1 # astRest)]
     \<noteq> Inr (MalList [MalSymbol ''quote'', MalList (ast1 # astRest)])"
proof (cases "ast1 = MalSymbol ''unquote''")
  case True
  show ?thesis
  proof (cases "length astRest = 1")
    case True
    then obtain y where "astRest = [y]" by (cases astRest) auto
    with \<open>ast1 = MalSymbol ''unquote''\<close> show ?thesis
      by (simp add: QUASIQUOTE_unquote checkMalInnerParameters_def not_its_own_quotation)
  next
    case False
    with \<open>ast1 = MalSymbol ''unquote''\<close> show ?thesis
      by (simp add: QUASIQUOTE_unquote checkMalInnerParameters_def)
  qed
next
  case False
  show ?thesis
  proof (cases "isMalList ast1 \<and> 0 < length (items ast1)
      \<and> first (items ast1) = MalSymbol ''splice-unquote''")
    case True
    then obtain ast1Rest where "ast1 = MalList (MalSymbol ''splice-unquote'' # ast1Rest)"
      by (cases ast1; cases "items ast1") (auto simp add: isMalList_iff)
    then show ?thesis
      by (simp add: QUASIQUOTE_splice_unquote split: option.splits sum.splits)
  next
    case no_splice: False
    with False show ?thesis
      by (simp add: QUASIQUOTE_cons split: sum.splits)
  qed
qed

text \<open>
  C5, as the claim states it, fails: the vector \<open>[1]\<close> is a non-empty sequential, and
  the rewrite returns \<open>(quote [1])\<close>; it is not taken apart by the cons rule.
\<close>

theorem QUASIQUOTE_vector_counterexample:
  "isMalSequential (MalVector [MalNumber 1])
   \<and> items (MalVector [MalNumber 1]) \<noteq> []
   \<and> QUASIQUOTE GlobalEnv [MalVector [MalNumber 1]]
       = Inr (MalList [MalSymbol ''quote'', MalVector [MalNumber 1]])"
  by (simp add: QUASIQUOTE_not_list isMalList_def isMalSequential_def isInstance_def)

text \<open>
  C5, amended. For every term \<open>x\<close>, the rewrite returns \<open>(quote x)\<close> if and only if
  \<open>x\<close> is not a List or is empty; a Vector, empty or not, is quoted as a whole. Every
  non-empty List is processed structurally: \<open>(unquote y)\<close> gives \<open>y\<close>, a head
  \<open>(splice-unquote y)\<close> gives \<open>(concat y rest')\<close>, and any other head gives
  \<open>(cons head' rest')\<close>, where \<open>head'\<close> and \<open>rest'\<close> are the rewrites of the head and
  of the List of the rest.
\<close>

theorem QUASIQUOTE_quote_iff:
  "(QUASIQUOTE env [x] = Inr (MalList [MalSymbol ''quote'', x])
      \<longleftrightarrow> \<not> isMalList x \<or> items x = [])
   \<and> QUASIQUOTE env [MalVector v] = Inr (MalList [MalSymbol ''quote'', MalVector v])
   \<and> QUASIQUOTE env [MalList [MalSymbol ''unquote'', y]] = Inr y
   \<and> QUASIQUOTE env [MalList (MalList [MalSymbol ''splice-unquote'', y] # astRest)]
       = (case QUASIQUOTE env [MalList astRest] of
            Inl error \<Rightarrow> Inl error
          | Inr rest \<Rightarrow> Inr (MalList [MalSymbol ''concat'', y, rest]))
   \<and> (front \<noteq> MalSymbol ''unquote''
        \<and> \<not> (isMalList front \<and> 0 < length (items front)
                \<and> first (items front) = MalSymbol ''splice-unquote'')
      \<longrightarrow> QUASIQUOTE env [MalList (front # astRest)]
            = (case QUASIQUOTE env [front] of
                 Inl error \<Rightarrow> Inl error
               | Inr head \<Rightarrow>
                   (case QUASIQUOTE env [MalList astRest] of
                      Inl error \<Rightarrow> Inl error
                    | Inr rest \<Rightarrow> Inr (MalList [MalSymbol ''cons'', head, rest]))))"
proof -
  have quoted: "QUASIQUOTE env [x] = Inr (MalList [MalSymbol ''quote'', x])
      \<longleftrightarrow> \<not> isMalList x \<or> items x = []"
  proof
    assume result: "QUASIQUOTE env [x] = Inr (MalList [MalSymbol ''quote'', x])"
    show "\<not> isMalList x \<or> items x = []"
    proof (rule ccontr)
      assume "\<not> (\<not> isMalList x \<or> items x = [])"
      then obtain front astRest where "x = MalList (front # astRest)"
        by (cases "items x") (auto simp add: isMalList_iff)
      with result QUASIQUOTE_nonempty_list [of env front astRest] show False by simp
    qed
  next
    assume "\<not> isMalList x \<or> items x = []"
    then show "QUASIQUOTE env [x] = Inr (MalList [MalSymbol ''quote'', x])"
      by (rule QUASIQUOTE_not_list)
  qed
  have vector: "QUASIQUOTE env [MalVector v] = Inr (MalList [MalSymbol ''quote'', MalVector v])"
    by (simp add: QUASIQUOTE_not_list isMalList_def isInstance_def)
  have unquote: "QUASIQUOTE env [MalList [MalSymbol ''unquote'', y]] = Inr y"
    by (simp add: QUASIQUOTE_unquote checkMalInnerParameters_def)
  have splice: "QUASIQUOTE env [MalList (MalList [MalSymbol ''splice-unquote'', y] # astRest)]
       = (case QUASIQUOTE env [MalList astRest] of
            Inl error \<Rightarrow> Inl error
          | Inr rest \<Rightarrow> Inr (MalList [MalSymbol ''concat'', y, rest]))"
    by (simp add: QUASIQUOTE_splice_unquote checkMalInnerParameters_def cong: sum.case_cong)
  from quoted vector unquote splice QUASIQUOTE_cons [of front env astRest]
  show ?thesis by blast
qed

text \<open>\<open>`(1 ~x ~@y)\<close> is rewritten to \<open>(cons (quote 1) (cons x (concat y (quote ()))))\<close>.\<close>

theorem QUASIQUOTE_quote_iff_witness:
  "QUASIQUOTE GlobalEnv [MalNumber 1] = Inr (MalList [MalSymbol ''quote'', MalNumber 1])
   \<and> QUASIQUOTE GlobalEnv [MalList []] = Inr (MalList [MalSymbol ''quote'', MalList []])
   \<and> QUASIQUOTE GlobalEnv
       [MalList [MalNumber 1, MalList [MalSymbol ''unquote'', MalSymbol ''x''],
                 MalList [MalSymbol ''splice-unquote'', MalSymbol ''y'']]]
     = Inr (MalList [MalSymbol ''cons'', MalList [MalSymbol ''quote'', MalNumber 1],
              MalList [MalSymbol ''cons'', MalSymbol ''x'',
                MalList [MalSymbol ''concat'', MalSymbol ''y'',
                  MalList [MalSymbol ''quote'', MalList []]]]])"
proof -
  have number: "QUASIQUOTE GlobalEnv [MalNumber 1] = Inr (MalList [MalSymbol ''quote'', MalNumber 1])"
    using QUASIQUOTE_quote_iff [where env = GlobalEnv and x = "MalNumber 1"]
    by (simp add: isMalList_def isInstance_def)
  have empty: "QUASIQUOTE GlobalEnv [MalList []] = Inr (MalList [MalSymbol ''quote'', MalList []])"
    using QUASIQUOTE_quote_iff [where env = GlobalEnv and x = "MalList []"] by simp
  have unquote: "QUASIQUOTE GlobalEnv [MalList [MalSymbol ''unquote'', MalSymbol ''x'']]
      = Inr (MalSymbol ''x'')"
    using QUASIQUOTE_quote_iff [where env = GlobalEnv and y = "MalSymbol ''x''"] by blast
  have splice: "QUASIQUOTE GlobalEnv
        [MalList [MalList [MalSymbol ''splice-unquote'', MalSymbol ''y'']]]
      = Inr (MalList [MalSymbol ''concat'', MalSymbol ''y'',
               MalList [MalSymbol ''quote'', MalList []]])"
    using QUASIQUOTE_quote_iff [where env = GlobalEnv and y = "MalSymbol ''y''" and astRest = "[]"] empty by simp
  have inner: "QUASIQUOTE GlobalEnv
        [MalList [MalList [MalSymbol ''unquote'', MalSymbol ''x''],
                  MalList [MalSymbol ''splice-unquote'', MalSymbol ''y'']]]
      = Inr (MalList [MalSymbol ''cons'', MalSymbol ''x'',
               MalList [MalSymbol ''concat'', MalSymbol ''y'',
                 MalList [MalSymbol ''quote'', MalList []]]])"
    using QUASIQUOTE_quote_iff [where env = GlobalEnv
        and astRest = "[MalList [MalSymbol ''splice-unquote'', MalSymbol ''y'']]"
        and front = "MalList [MalSymbol ''unquote'', MalSymbol ''x'']"]
      unquote splice
    by (simp add: isMalList_def isInstance_def)
  have outer: "QUASIQUOTE GlobalEnv
       [MalList [MalNumber 1, MalList [MalSymbol ''unquote'', MalSymbol ''x''],
                 MalList [MalSymbol ''splice-unquote'', MalSymbol ''y'']]]
     = Inr (MalList [MalSymbol ''cons'', MalList [MalSymbol ''quote'', MalNumber 1],
              MalList [MalSymbol ''cons'', MalSymbol ''x'',
                MalList [MalSymbol ''concat'', MalSymbol ''y'',
                  MalList [MalSymbol ''quote'', MalList []]]]])"
    using QUASIQUOTE_quote_iff [where env = GlobalEnv
        and astRest = "[MalList [MalSymbol ''unquote'', MalSymbol ''x''],
          MalList [MalSymbol ''splice-unquote'', MalSymbol ''y'']]"
        and front = "MalNumber 1"]
      number inner
    by (simp add: isMalList_def isInstance_def)
  from number empty outer show ?thesis by simp
qed

section \<open>Properties of the tail positions\<close>

lemma EVAL_NOT_CATCH_special_form:
  assumes "\<not> isMacroFunction env (MalList (MalSymbol name # args)) st"
  shows "EVAL_NOT_CATCH native (Suc n) (MalList (MalSymbol name # args)) env st
     = (let EVAL = EVAL native n; continue = EVAL_NOT_CATCH native n;
            ast = MalList (MalSymbol name # args) in
        if name = ''def!'' then DEF EVAL env args st
        else if name = ''let*'' then
          and_then (LET EVAL env args st) (\<lambda>(ast, env) st. continue ast env st)
        else if name = ''do'' then
          and_then (DO EVAL env args st) (\<lambda>ast st. continue ast env st)
        else if name = ''if'' then
          and_then (IF EVAL env args st) (\<lambda>ast st. continue ast env st)
        else if name = ''fn*'' then FN env args st
        else if name = ''eval'' then
          and_then (EVALFUNC EVAL env args st) (\<lambda>ast st. continue ast env st)
        else if name = ''quote'' then QUOTE env args st
        else if name = ''quasiquote'' then
          (case QUASIQUOTE env args of
             Inl error \<Rightarrow> Throw error st
           | Inr ast \<Rightarrow> continue ast env st)
        else if name = ''defmacro!'' then DEFMACRO EVAL env args st
        else if name = ''macroexpand'' then
          and_then (MACROEXPAND native EVAL n env args st) (\<lambda>ast st. continue ast env st)
        else if name = ''try*'' then TRY EVAL env args st
        else application native continue EVAL ast env st)"
proof -
  have expanded: "MACROEXPAND native (EVAL_try (EVAL_NOT_CATCH native n)) n env
      [MalList (MalSymbol name # args)] st = Return (MalList (MalSymbol name # args)) st"
    using assms by (simp add: MACROEXPAND_singleton MACROEXPAND_while_not_macro)
  have list: "isMalList (MalList (MalSymbol name # args))"
    and sequential: "isMalSequential (MalList (MalSymbol name # args))"
    by (simp_all add: isMalList_def isMalSequential_def isInstance_def)
  show ?thesis
    by (simp add: iteration_def list expanded sequential and_then_def EVAL_def Let_def)
qed

lemma IF_three:
  "IF ev env [condition, yes, no] st
     = and_then (ev condition env st) (\<lambda>result st'.
         Return (if isPositive result then yes else no) st')"
  by (simp add: IF_def checkMalInnerParameters_def Let_def)

lemma IF_two:
  "IF ev env [condition, yes] st
     = and_then (ev condition env st) (\<lambda>result st'.
         Return (if isPositive result then yes else MalNil) st')"
  by (simp add: IF_def checkMalInnerParameters_def Let_def)

lemma if_form_tail_continues:
  assumes "\<not> isMacroFunction env (MalList [MalSymbol ''if'', condition, yes, no]) st"
  shows "EVAL_NOT_CATCH native (Suc n) (MalList [MalSymbol ''if'', condition, yes, no]) env st
     = and_then (EVAL native n condition env st) (\<lambda>result st'.
         EVAL_NOT_CATCH native n (if isPositive result then yes else no) env st')"
  using assms
  by (simp del: EVAL_NOT_CATCH.simps
      add: EVAL_NOT_CATCH_special_form IF_three and_then_def split: outcome.splits)

lemma IF0_three:
  "IF0 ev env [condition, yes, no] st
     = and_then (ev condition env st) (\<lambda>result st'.
         if isPositive result then ev yes env st' else ev no env st')"
  by (simp add: IF0_def checkMalInnerParameters_def Let_def)

text \<open>
  C1. The later step does what the claim says: \<open>IF\<close> evaluates the condition only and
  returns the chosen branch as it stands (\<open>IF_three\<close>, \<open>IF_two\<close>), and the loop continues
  with it (\<open>if_form_tail_continues\<close>). The earlier step does not: its \<open>IF\<close> evaluates
  the chosen branch itself (\<open>IF0_three\<close>), and the loop then evaluates the value of the
  branch once more. On \<open>(if true (list 1 2))\<close>, with \<open>list\<close> bound to the built-in, the
  helper of the earlier step returns the value \<open>(1 2)\<close> where the helper of the later
  step returns the branch \<open>(list 1 2)\<close>; the earlier step then evaluates \<open>(1 2)\<close> as a
  form and throws on its head, and the later step returns \<open>(1 2)\<close>. Three iterations are
  enough, and more change nothing.
\<close>

theorem IF0_evaluates_the_branch:
  "IF0 (EVAL0 core_list (Suc (Suc n))) GlobalEnv (tl (items if_true_list)) state_with_list
     = Return (MalList [MalNumber 1, MalNumber 2]) state_with_list
   \<and> EVAL0 core_list (Suc (Suc (Suc n))) if_true_list GlobalEnv state_with_list
     = Throw (MalUnexpectedTokenType (MalNumber 1) [Name_MalSymbol]) state_with_list
   \<and> IF (EVAL core_list (Suc (Suc n))) GlobalEnv (tl (items if_true_list)) state_with_list
     = Return (MalList [MalSymbol ''list'', MalNumber 1, MalNumber 2]) state_with_list
   \<and> EVAL core_list (Suc (Suc (Suc n))) if_true_list GlobalEnv state_with_list
     = Return (MalList [MalNumber 1, MalNumber 2]) state_with_list"
proof -
  have helper0:
    "IF0 (EVAL0 core_list (Suc (Suc n))) GlobalEnv (tl (items if_true_list)) state_with_list
       = Return (MalList [MalNumber 1, MalNumber 2]) state_with_list"
    by (simp add: if_true_list_def state_with_list_def core_list_def checker_defs error_defs
        env_defs evaluator_defs)
  have step0:
    "EVAL0 core_list (Suc (Suc (Suc n))) if_true_list GlobalEnv state_with_list
       = Throw (MalUnexpectedTokenType (MalNumber 1) [Name_MalSymbol]) state_with_list"
    by (simp add: if_true_list_def state_with_list_def core_list_def checker_defs error_defs
        env_defs evaluator_defs)
  have helper:
    "IF (EVAL core_list (Suc (Suc n))) GlobalEnv (tl (items if_true_list)) state_with_list
       = Return (MalList [MalSymbol ''list'', MalNumber 1, MalNumber 2]) state_with_list"
    by (simp add: if_true_list_def state_with_list_def core_list_def checker_defs error_defs
        env_defs evaluator_defs)
  have step:
    "EVAL core_list (Suc (Suc (Suc n))) if_true_list GlobalEnv state_with_list
       = Return (MalList [MalNumber 1, MalNumber 2]) state_with_list"
    by (simp add: if_true_list_def state_with_list_def core_list_def checker_defs error_defs
        env_defs evaluator_defs)
  from helper0 step0 helper step show ?thesis by simp
qed

text \<open>
  C2, as the claim states it, fails. In a child environment that binds \<open>a\<close> to 1, under
  a root that binds \<open>a\<close> to 2, the argument of \<open>(eval (quote a))\<close> evaluates to the symbol
  \<open>a\<close>; continuing with that symbol in the root environment gives 2; the evaluator gives
  1, the binding of the current environment. So \<open>(let* [a 1] (eval (quote a)))\<close> at top
  level, after \<open>(def! a 2)\<close>, evaluates to 1.
\<close>

theorem eval_form_counterexample:
  "EVAL no_native (Suc 0) (MalList [MalSymbol ''quote'', MalSymbol ''a'']) 1 state_a_shadowed
     = Return (MalSymbol ''a'') state_a_shadowed
   \<and> EVAL_NOT_CATCH no_native (Suc 0) (MalSymbol ''a'') GlobalEnv state_a_shadowed
     = Return (MalNumber 2) state_a_shadowed
   \<and> EVAL_NOT_CATCH no_native (Suc (Suc 0)) eval_quote_a 1 state_a_shadowed
     = Return (MalNumber 1) state_a_shadowed
   \<and> EVAL no_native (Suc (Suc (Suc 0))) let_a_eval_quote_a GlobalEnv state_a_root
     = Return (MalNumber 1) state_a_shadowed"
  by (simp add: let_a_eval_quote_a_def eval_quote_a_def state_a_root_def state_a_shadowed_def
      checker_defs error_defs env_defs evaluator_defs)

text \<open>
  C2, amended. For every \<open>(eval x)\<close> form that reaches the dispatch on the special forms
  (its head is not bound to a macro), in any environment: the evaluator first evaluates
  \<open>x\<close> in the current environment to obtain a Term, and then tail-continues with that
  term in the same, current environment; the root environment plays no part.
\<close>

theorem eval_form_continues_in_current_env:
  assumes "\<not> isMacroFunction env (MalList [MalSymbol ''eval'', x]) st"
  shows "EVAL_NOT_CATCH native (Suc n) (MalList [MalSymbol ''eval'', x]) env st
     = and_then (EVAL native n x env st) (\<lambda>ast st'. EVAL_NOT_CATCH native n ast env st')"
  using assms
  by (simp del: EVAL_NOT_CATCH.simps
      add: EVAL_NOT_CATCH_special_form EVALFUNC_def checkMalInnerParameters_def Let_def)

theorem eval_form_continues_in_current_env_witness:
  "\<not> isMacroFunction 1 eval_quote_a state_a_shadowed
   \<and> EVAL no_native (Suc 0) (MalList [MalSymbol ''quote'', MalSymbol ''a'']) 1 state_a_shadowed
     = Return (MalSymbol ''a'') state_a_shadowed
   \<and> EVAL_NOT_CATCH no_native (Suc 0) (MalSymbol ''a'') 1 state_a_shadowed
     = Return (MalNumber 1) state_a_shadowed
   \<and> EVAL_NOT_CATCH no_native (Suc (Suc 0)) eval_quote_a 1 state_a_shadowed
     = Return (MalNumber 1) state_a_shadowed"
proof -
  have no_macro: "\<not> isMacroFunction 1 (MalList [MalSymbol ''eval'',
      MalList [MalSymbol ''quote'', MalSymbol ''a'']]) state_a_shadowed"
    by (simp add: state_a_shadowed_def checker_defs env_defs isMacroFunction_def first_def
        get_def js_index_def Let_def)
  have argument:
    "EVAL no_native (Suc 0) (MalList [MalSymbol ''quote'', MalSymbol ''a'']) 1 state_a_shadowed
       = Return (MalSymbol ''a'') state_a_shadowed"
    by (simp add: state_a_shadowed_def checker_defs error_defs env_defs evaluator_defs)
  have continued:
    "EVAL_NOT_CATCH no_native (Suc 0) (MalSymbol ''a'') 1 state_a_shadowed
       = Return (MalNumber 1) state_a_shadowed"
    by (simp add: state_a_shadowed_def checker_defs error_defs env_defs evaluator_defs)
  from eval_form_continues_in_current_env [OF no_macro, of no_native "Suc 0"]
    argument continued
  have "EVAL_NOT_CATCH no_native (Suc (Suc 0)) eval_quote_a 1 state_a_shadowed
      = Return (MalNumber 1) state_a_shadowed"
    by (simp del: EVAL_NOT_CATCH.simps add: eval_quote_a_def and_then_def)
  with no_macro argument continued show ?thesis by (simp add: eval_quote_a_def)
qed


end
